theory Spec2Isabelle
  imports Complex_Main
begin

section \<open>Synthetic e-commerce data generator\<close>

text \<open>
  A shallow embedding of \<^verbatim>\<open>src/data_generator.py\<close> (class
  \<^verbatim>\<open>EcommerceDataGenerator\<close>) and of \<^verbatim>\<open>src/data_generator_fixed.py\<close>
  (class \<^verbatim>\<open>RobustDataGenerator\<close>).

  Conventions of the model:
  \<^item> Python integers that count things (ids, quantities, lengths) are \<open>nat\<close>; stock
    levels and day numbers are \<open>int\<close>.
  \<^item> Python floats are exact rationals (\<open>rat\<close>): the binary rounding error of IEEE
    doubles is not modelled. Where a value of the program is shown below to differ from
    a claimed one, the two differ by a cent or more.
  \<^item> A \<^verbatim>\<open>datetime\<close> is a pair of a proleptic Gregorian day ordinal (as
    \<^verbatim>\<open>date.toordinal()\<close>) and the microseconds elapsed in that day.
  \<^item> \<^verbatim>\<open>datetime.now()\<close> is a parameter \<open>now\<close> of every function that reads it.
  \<^item> The pseudo-random generators are oracles: a list of raw values, consumed one per
    call, each mapped into the result range of the primitive that reads it.
  \<^item> Columns filled by Faker (names, e-mail, supplier, \<^verbatim>\<open>created_date\<close>,
    \<^verbatim>\<open>signup_date\<close>, ...) are left out of the records; Faker draws from a generator
    of its own.
  \<^item> String literals are written without their accents.
  \<^item> \<^verbatim>\<open>generate_all_data\<close> is read as a method of the class, although its
    \<^verbatim>\<open>def\<close> line sits one indentation level too deep in the file.
\<close>

subsection \<open>Dates\<close>

record datetime =
  dt_day :: int
  dt_micros :: nat

definition date_of :: "datetime \<Rightarrow> int" where
  \<comment> \<open>\<^verbatim>\<open>current_date.date()\<close>\<close>
  "date_of d = dt_day d"

definition add_days :: "datetime \<Rightarrow> int \<Rightarrow> datetime" where
  \<comment> \<open>\<^verbatim>\<open>d + timedelta(days=k)\<close>\<close>
  "add_days d k = d\<lparr>dt_day := dt_day d + k\<rparr>"

definition weekday :: "int \<Rightarrow> int" where
  \<comment> \<open>\<^verbatim>\<open>date.weekday()\<close>: Monday is 0, Sunday is 6\<close>
  "weekday d = (d + 6) mod 7"

definition days_before_month :: "int \<Rightarrow> int" where
  "days_before_month m = [0, 0, 31, 59, 90, 120, 151, 181, 212, 243, 273, 304, 334] ! nat m"

definition month_of :: "int \<Rightarrow> int" where
  \<comment> \<open>\<^verbatim>\<open>date.month\<close> of the day with ordinal \<open>d\<close>, by the conversion of the standard
      library (400-, 100-, 4- and 1-year cycles, then an estimate of the month)\<close>
  "month_of d =
     (let n = d - 1;
          n = n mod 146097;
          n100 = n div 36524; n = n mod 36524;
          n4 = n div 1461; n = n mod 1461;
          n1 = n div 365; n = n mod 365
      in if n1 = 4 \<or> n100 = 4 then 12
         else
           let leapyear = (n1 = 3 \<and> (n4 \<noteq> 24 \<or> n100 = 3));
               month = (n + 50) div 32;
               preceding = days_before_month month + (if month > 2 \<and> leapyear then 1 else 0)
           in if preceding > n then month - 1 else month)"

subsection \<open>Rounding\<close>

definition round_half_even :: "rat \<Rightarrow> int" where
  "round_half_even x =
     (let f = \<lfloor>x\<rfloor>; d = x - of_int f
      in if d < 1 / 2 then f
         else if 1 / 2 < d then f + 1
         else if even f then f else f + 1)"

definition py_round :: "rat \<Rightarrow> nat \<Rightarrow> rat" where
  \<comment> \<open>\<^verbatim>\<open>round(x, n)\<close>: nearest multiple of \<open>10^-n\<close>, ties to even\<close>
  "py_round x n = of_int (round_half_even (x * 10 ^ n)) / 10 ^ n"

subsection \<open>Random sources\<close>

text \<open>
  \<open>np_raw\<close> feeds \<^verbatim>\<open>np.random\<close>, \<open>py_raw\<close> feeds the module \<^verbatim>\<open>random\<close>;
  \<open>drawn\<close> counts the draws made so far from either. An exhausted list yields 0.
\<close>

record rng =
  np_raw :: "rat list"
  py_raw :: "rat list"
  drawn :: nat

datatype error = ValueError | KeyError

definition np_next :: "rng \<Rightarrow> rat \<times> rng" where
  "np_next g =
     (case np_raw g of
        [] \<Rightarrow> (0, g\<lparr>drawn := Suc (drawn g)\<rparr>)
      | r # rs \<Rightarrow> (r, g\<lparr>np_raw := rs, drawn := Suc (drawn g)\<rparr>))"

definition py_next :: "rng \<Rightarrow> rat \<times> rng" where
  "py_next g =
     (case py_raw g of
        [] \<Rightarrow> (0, g\<lparr>drawn := Suc (drawn g)\<rparr>)
      | r # rs \<Rightarrow> (r, g\<lparr>py_raw := rs, drawn := Suc (drawn g)\<rparr>))"

definition unit_frac :: "rat \<Rightarrow> rat" where
  "unit_frac r = r - of_int \<lfloor>r\<rfloor>"

definition np_random :: "rng \<Rightarrow> rat \<times> rng" where
  \<comment> \<open>\<^verbatim>\<open>np.random.random()\<close>: a value in [0, 1)\<close>
  "np_random g = (let (r, g') = np_next g in (unit_frac r, g'))"

definition np_uniform :: "rat \<Rightarrow> rat \<Rightarrow> rng \<Rightarrow> rat \<times> rng" where
  \<comment> \<open>\<^verbatim>\<open>np.random.uniform(low, high)\<close>: a value in [low, high)\<close>
  "np_uniform low high g = (let (u, g') = np_random g in (low + (high - low) * u, g'))"

definition np_poisson :: "rat \<Rightarrow> rng \<Rightarrow> nat \<times> rng" where
  \<comment> \<open>\<^verbatim>\<open>np.random.poisson(lam)\<close>: any natural number\<close>
  "np_poisson lam g = (let (r, g') = np_next g in (nat \<lfloor>r\<rfloor>, g'))"

definition np_lognormal :: "rat \<Rightarrow> rat \<Rightarrow> rng \<Rightarrow> rat \<times> rng" where
  \<comment> \<open>\<^verbatim>\<open>np.random.lognormal(mean, sigma)\<close>: any positive value\<close>
  "np_lognormal mean sigma g = (let (r, g') = np_next g in (if 0 < r then r else 1, g'))"

definition np_randint :: "int \<Rightarrow> int \<Rightarrow> rng \<Rightarrow> (error + int) \<times> rng" where
  \<comment> \<open>\<^verbatim>\<open>np.random.randint(low, high)\<close>: an integer in [low, high); raises
      \<^verbatim>\<open>ValueError\<close> ("low >= high") on an empty range, before drawing\<close>
  "np_randint low high g =
     (if low \<ge> high then (Inl ValueError, g)
      else let (r, g') = np_next g in (Inr (low + \<lfloor>r\<rfloor> mod (high - low)), g'))"

fun choice_at :: "'a list \<Rightarrow> rat list \<Rightarrow> rat \<Rightarrow> 'a \<Rightarrow> 'a" where
  "choice_at (x # xs) (p # ps) u d = (if u < p then x else choice_at xs ps (u - p) d)"
| "choice_at _ _ u d = d"

definition np_choice :: "'a list \<Rightarrow> rat list \<Rightarrow> rng \<Rightarrow> 'a \<times> rng" where
  \<comment> \<open>\<^verbatim>\<open>np.random.choice(a, p=p)\<close> on a non-empty \<open>a\<close>: one uniform draw located
      in the cumulative sums of \<open>p\<close>\<close>
  "np_choice a p g = (let (u, g') = np_random g in (choice_at a p u (last a), g'))"

definition py_choice :: "'a list \<Rightarrow> rng \<Rightarrow> 'a \<times> rng" where
  \<comment> \<open>\<^verbatim>\<open>random.choice(seq)\<close> on a non-empty \<open>seq\<close>\<close>
  "py_choice seq g = (let (r, g') = py_next g in (seq ! (nat \<lfloor>r\<rfloor> mod length seq), g'))"

subsection \<open>Tables\<close>

record product =
  p_product_id :: nat
  p_category :: string
  p_subcategory :: string
  p_price :: rat
  p_cost :: rat
  p_margin :: rat
  p_weight_kg :: rat

record customer =
  c_customer_id :: nat
  c_region :: string
  c_customer_type :: string
  c_last_purchase_date :: "int option"
  c_total_spent :: rat
  c_total_orders :: nat

record sale =
  s_sale_id :: nat
  s_date :: int
  s_datetime :: datetime
  s_customer_id :: nat
  s_product_id :: nat
  s_quantity :: nat
  s_unit_price :: rat
  s_subtotal :: rat
  s_discount_pct :: rat
  s_discount_amount :: rat
  s_total :: rat
  s_cost :: rat
  s_profit :: rat
  s_payment_method :: string
  s_channel :: string
  s_region :: string
  s_category :: string
  s_subcategory :: string

subsection \<open>\<^verbatim>\<open>EcommerceDataGenerator.generate_sales\<close>\<close>

definition seasonal_factor :: "datetime \<Rightarrow> rat" where
  "seasonal_factor date =
     (let day_factor = (if weekday (dt_day date) \<ge> 4 then 3 / 2 else 1);
          month = month_of (dt_day date);
          month_factor =
            (if month = 12 then 5 / 2
             else if month = 11 then 2
             else if month \<in> {6, 7} then 13 / 10
             else 1)
      in day_factor * month_factor)"

definition make_sale ::
  "product list \<Rightarrow> customer list \<Rightarrow> datetime \<Rightarrow> nat \<Rightarrow> rng \<Rightarrow> (error + sale) \<times> rng" where
  \<comment> \<open>the body of the inner loop, up to the dictionary \<^verbatim>\<open>sale\<close>\<close>
  "make_sale products_df customers_df current_date sale_id g =
     (case np_randint 0 (int (length products_df)) g of
        (Inl e, g1) \<Rightarrow> (Inl e, g1)
      | (Inr i, g1) \<Rightarrow>
     (case np_randint 0 (int (length customers_df)) g1 of
        (Inl e, g2) \<Rightarrow> (Inl e, g2)
      | (Inr j, g2) \<Rightarrow>
          let product = products_df ! nat i;
              customer = customers_df ! nat j;
              (quantity, g3) = np_choice [1, 2, 3, 4, 5] [6 / 10, 2 / 10, 1 / 10, 5 / 100, 5 / 100] g2;
              (u, g4) = np_random g3;
              (discount, g5) = (if u < 2 / 10 then np_uniform 0 (3 / 10) g4 else (0, g4));
              subtotal = p_price product * of_nat quantity;
              discount_amount = subtotal * discount;
              total = subtotal - discount_amount;
              profit = (p_price product - p_cost product) * of_nat quantity * (1 - discount);
              (payment_method, g6) =
                 py_choice [''Tarjeta'', ''Transferencia'', ''Efectivo'', ''MercadoPago''] g5;
              (channel, g7) = py_choice [''Web'', ''App'', ''Fisico'', ''Marketplace''] g6
          in (Inr \<lparr> s_sale_id = sale_id,
                     s_date = date_of current_date,
                     s_datetime = current_date,
                     s_customer_id = c_customer_id customer,
                     s_product_id = p_product_id product,
                     s_quantity = quantity,
                     s_unit_price = p_price product,
                     s_subtotal = py_round subtotal 2,
                     s_discount_pct = py_round (discount * 100) 1,
                     s_discount_amount = py_round discount_amount 2,
                     s_total = py_round total 2,
                     s_cost = p_cost product * of_nat quantity,
                     s_profit = py_round profit 2,
                     s_payment_method = payment_method,
                     s_channel = channel,
                     s_region = c_region customer,
                     s_category = p_category product,
                     s_subcategory = p_subcategory product \<rparr>, g7)))"

fun sales_loop ::
  "product list \<Rightarrow> customer list \<Rightarrow> datetime \<Rightarrow> nat \<Rightarrow> sale list \<Rightarrow> nat \<Rightarrow> rng
     \<Rightarrow> (error + sale list \<times> nat) \<times> rng" where
  \<comment> \<open>\<^verbatim>\<open>for _ in range(daily_sales)\<close>, on the state \<open>(sales, sale_id)\<close>\<close>
  "sales_loop products_df customers_df current_date 0 sales sale_id g = (Inr (sales, sale_id), g)"
| "sales_loop products_df customers_df current_date (Suc n) sales sale_id g =
     (case make_sale products_df customers_df current_date sale_id g of
        (Inl e, g') \<Rightarrow> (Inl e, g')
      | (Inr sale, g') \<Rightarrow>
          sales_loop products_df customers_df current_date n (sales @ [sale]) (sale_id + 1) g')"

definition daily_count :: "datetime \<Rightarrow> nat \<Rightarrow> nat" where
  \<comment> \<open>\<^verbatim>\<open>int(base_sales * seasonal_adjustment)\<close>\<close>
  "daily_count current_date base_sales =
     nat \<lfloor>of_nat base_sales * seasonal_factor current_date\<rfloor>"

definition day_body ::
  "product list \<Rightarrow> customer list \<Rightarrow> datetime \<Rightarrow> sale list \<Rightarrow> nat \<Rightarrow> rng
     \<Rightarrow> (error + sale list \<times> nat) \<times> rng" where
  \<comment> \<open>the body of the outer loop after \<^verbatim>\<open>current_date += timedelta(days=1)\<close>\<close>
  "day_body products_df customers_df current_date sales sale_id g =
     (let (base_sales, g1) = np_poisson 50 g;
          daily_sales = daily_count current_date base_sales
      in sales_loop products_df customers_df current_date daily_sales sales sale_id g1)"

fun days_loop ::
  "product list \<Rightarrow> customer list \<Rightarrow> nat \<Rightarrow> datetime \<Rightarrow> sale list \<Rightarrow> nat \<Rightarrow> rng
     \<Rightarrow> (error + sale list \<times> nat) \<times> rng" where
  \<comment> \<open>\<^verbatim>\<open>for day in range(self.n_days)\<close>, on the state
      \<open>(current_date, sales, sale_id)\<close>\<close>
  "days_loop products_df customers_df 0 current_date sales sale_id g = (Inr (sales, sale_id), g)"
| "days_loop products_df customers_df (Suc k) current_date sales sale_id g =
     (let current_date = add_days current_date 1
      in case day_body products_df customers_df current_date sales sale_id g of
           (Inl e, g2) \<Rightarrow> (Inl e, g2)
         | (Inr (sales, sale_id), g2) \<Rightarrow>
             days_loop products_df customers_df k current_date sales sale_id g2)"

fun day_starts ::
  "product list \<Rightarrow> customer list \<Rightarrow> nat \<Rightarrow> datetime \<Rightarrow> sale list \<Rightarrow> nat \<Rightarrow> rng
     \<Rightarrow> rng list" where
  \<comment> \<open>the state of the random source at the start of each iteration of the outer loop,
      read off the same loop; not a part of the program\<close>
  "day_starts products_df customers_df 0 current_date sales sale_id g = []"
| "day_starts products_df customers_df (Suc k) current_date sales sale_id g =
     g # (let current_date = add_days current_date 1
          in case day_body products_df customers_df current_date sales sale_id g of
               (Inl e, g2) \<Rightarrow> []
             | (Inr (sales, sale_id), g2) \<Rightarrow>
                 day_starts products_df customers_df k current_date sales sale_id g2)"

definition base_draws ::
  "datetime \<Rightarrow> nat \<Rightarrow> product list \<Rightarrow> customer list \<Rightarrow> rng \<Rightarrow> nat list" where
  \<comment> \<open>the value of \<^verbatim>\<open>base_sales = np.random.poisson(lam=50)\<close> on each day of a run\<close>
  "base_draws now ndays products_df customers_df g =
     map (\<lambda>g. fst (np_poisson 50 g))
         (day_starts products_df customers_df ndays (add_days now (- int ndays)) [] 1 g)"

definition generate_sales ::
  "datetime \<Rightarrow> nat \<Rightarrow> product list \<Rightarrow> customer list \<Rightarrow> rng \<Rightarrow> (error + sale list) \<times> rng" where
  "generate_sales now ndays products_df customers_df g =
     (let current_date = add_days now (- int ndays)
      in case days_loop products_df customers_df ndays current_date [] 1 g of
           (Inl e, g') \<Rightarrow> (Inl e, g')
         | (Inr (sales, sale_id), g') \<Rightarrow> (Inr sales, g'))"


subsection \<open>\<^verbatim>\<open>EcommerceDataGenerator\<close>: configuration and catalogues\<close>

record config =
  n_products :: nat
  n_customers :: nat
  n_days :: nat

definition default_config :: config where
  \<comment> \<open>the values set by \<^verbatim>\<open>__init__\<close>\<close>
  "default_config = \<lparr> n_products = 50, n_customers = 200, n_days = 365 \<rparr>"

definition categories :: "string list" where
  "categories = [''Electronica'', ''Ropa'', ''Hogar'', ''Deportes'', ''Libros'', ''Juguetes'']"

definition subcategories :: "(string \<times> string list) list" where
  "subcategories =
     [(''Electronica'', [''Smartphones'', ''Laptops'', ''Tablets'', ''Accesorios'']),
      (''Ropa'', [''Hombre'', ''Mujer'', ''Ninos'', ''Deportiva'']),
      (''Hogar'', [''Cocina'', ''Decoracion'', ''Muebles'', ''Jardin'']),
      (''Deportes'', [''Fitness'', ''Running'', ''Natacion'', ''Ciclismo'']),
      (''Libros'', [''Ficcion'', ''No Ficcion'', ''Tecnicos'', ''Infantiles'']),
      (''Juguetes'', [''Educativos'', ''Videojuegos'', ''Exterior'', ''Bebes''])]"

definition make_product :: "nat \<Rightarrow> rng \<Rightarrow> (error + product) \<times> rng" where
  \<comment> \<open>the body of the loop of \<^verbatim>\<open>generate_products\<close>\<close>
  "make_product i g =
     (let (category, g1) = py_choice categories g
      in case map_of subcategories category of
           None \<Rightarrow> (Inl KeyError, g1)
         | Some subs \<Rightarrow>
             let (subcategory, g2) = py_choice subs g1;
                 (ln, g3) = np_lognormal (7 / 2) (8 / 10) g2;
                 base_price = ln * 10;
                 price = py_round base_price 2;
                 (margin, g4) = np_uniform (3 / 10) (7 / 10) g3;
                 cost = py_round (price * (1 - margin)) 2;
                 (weight, g5) = np_uniform (1 / 10) 5 g4
             in (Inr \<lparr> p_product_id = i,
                        p_category = category,
                        p_subcategory = subcategory,
                        p_price = price,
                        p_cost = cost,
                        p_margin = py_round (margin * 100) 1,
                        p_weight_kg = py_round weight 2 \<rparr>, g5))"

fun products_loop :: "nat list \<Rightarrow> product list \<Rightarrow> rng \<Rightarrow> (error + product list) \<times> rng" where
  "products_loop [] products g = (Inr products, g)"
| "products_loop (i # is) products g =
     (case make_product i g of
        (Inl e, g') \<Rightarrow> (Inl e, g')
      | (Inr product, g') \<Rightarrow> products_loop is (products @ [product]) g')"

definition generate_products :: "config \<Rightarrow> rng \<Rightarrow> (error + product list) \<times> rng" where
  \<comment> \<open>\<^verbatim>\<open>for i in range(1, self.n_products + 1)\<close>\<close>
  "generate_products cfg g = products_loop [1..<n_products cfg + 1] [] g"

definition make_customer :: "nat \<Rightarrow> rng \<Rightarrow> customer \<times> rng" where
  \<comment> \<open>the body of the loop of \<^verbatim>\<open>generate_customers\<close>\<close>
  "make_customer i g =
     (let (region, g1) = py_choice [''Norte'', ''Sur'', ''Este'', ''Oeste'', ''Centro''] g;
          (customer_type, g2) = py_choice [''Ocasional'', ''Regular'', ''Premium'', ''Empresa''] g1
      in (\<lparr> c_customer_id = i,
             c_region = region,
             c_customer_type = customer_type,
             c_last_purchase_date = None,
             c_total_spent = 0,
             c_total_orders = 0 \<rparr>, g2))"

fun customers_loop :: "nat list \<Rightarrow> customer list \<Rightarrow> rng \<Rightarrow> customer list \<times> rng" where
  "customers_loop [] customers g = (customers, g)"
| "customers_loop (i # is) customers g =
     (let (customer, g') = make_customer i g in customers_loop is (customers @ [customer]) g')"

definition generate_customers :: "config \<Rightarrow> rng \<Rightarrow> customer list \<times> rng" where
  \<comment> \<open>\<^verbatim>\<open>for i in range(1, self.n_customers + 1)\<close>\<close>
  "generate_customers cfg g = customers_loop [1..<n_customers cfg + 1] [] g"

subsection \<open>\<^verbatim>\<open>EcommerceDataGenerator.generate_inventory\<close>\<close>

record inventory_record =
  i_date :: int
  i_product_id :: nat
  i_category :: string
  i_current_stock :: int
  i_daily_sales :: nat
  i_reorder_point :: int
  i_ideal_stock :: int
  i_stock_status :: string

definition restock_due :: "int \<Rightarrow> int \<Rightarrow> rng \<Rightarrow> bool \<times> rng" where
  \<comment> \<open>\<^verbatim>\<open>current_stock <= reorder_point and np.random.random() < 0.3\<close>: the draw is
      made only when the first conjunct holds\<close>
  "restock_due current_stock reorder_point g =
     (if current_stock \<le> reorder_point
      then let (u, g') = np_random g in (u < 3 / 10, g')
      else (False, g))"

definition inventory_day ::
  "datetime \<Rightarrow> product \<Rightarrow> nat \<Rightarrow> int \<Rightarrow> int \<Rightarrow> int \<Rightarrow> rng
     \<Rightarrow> (error + inventory_record \<times> int) \<times> rng" where
  \<comment> \<open>the body of \<^verbatim>\<open>for day in range(30)\<close>: the record appended and the stock
      carried to the next day\<close>
  "inventory_day now product day current_stock reorder_point ideal_stock g =
     (let date = add_days now (- (30 - int day));
          (daily_sales, g1) = np_poisson 2 g;
          current_stock = max 0 (current_stock - int daily_sales);
          (due, g2) = restock_due current_stock reorder_point g1
      in case (if due
               then case np_randint reorder_point ideal_stock g2 of
                      (Inl e, g3) \<Rightarrow> (Inl e, g3)
                    | (Inr restock, g3) \<Rightarrow> (Inr (current_stock + restock), g3)
               else (Inr current_stock, g2)) of
           (Inl e, g3) \<Rightarrow> (Inl e, g3)
         | (Inr current_stock, g3) \<Rightarrow>
             (Inr (\<lparr> i_date = date_of date,
                         i_product_id = p_product_id product,
                         i_category = p_category product,
                         i_current_stock = current_stock,
                         i_daily_sales = daily_sales,
                         i_reorder_point = reorder_point,
                         i_ideal_stock = ideal_stock,
                         i_stock_status =
                           (if current_stock > reorder_point then ''OK'' else ''LOW'') \<rparr>,
                   current_stock), g3))"

fun inventory_days ::
  "datetime \<Rightarrow> product \<Rightarrow> nat list \<Rightarrow> int \<Rightarrow> int \<Rightarrow> int \<Rightarrow> inventory_record list \<Rightarrow> rng
     \<Rightarrow> (error + inventory_record list) \<times> rng" where
  "inventory_days now product [] current_stock reorder_point ideal_stock inventory g =
     (Inr inventory, g)"
| "inventory_days now product (day # days) current_stock reorder_point ideal_stock inventory g =
     (case inventory_day now product day current_stock reorder_point ideal_stock g of
        (Inl e, g') \<Rightarrow> (Inl e, g')
      | (Inr (record, current_stock), g') \<Rightarrow>
          inventory_days now product days current_stock reorder_point ideal_stock
            (inventory @ [record]) g')"

fun inventory_products ::
  "datetime \<Rightarrow> product list \<Rightarrow> inventory_record list \<Rightarrow> rng
     \<Rightarrow> (error + inventory_record list) \<times> rng" where
  \<comment> \<open>\<^verbatim>\<open>for _, product in products_df.iterrows()\<close>\<close>
  "inventory_products now [] inventory g = (Inr inventory, g)"
| "inventory_products now (product # rest) inventory g =
     (case np_randint 10 100 g of
        (Inl e, g1) \<Rightarrow> (Inl e, g1)
      | (Inr current_stock, g1) \<Rightarrow>
          let reorder_point = \<lfloor>of_int current_stock * (3 / 10 :: rat)\<rfloor>;
              ideal_stock = \<lfloor>of_int current_stock * (3 / 2 :: rat)\<rfloor>
          in case inventory_days now product [0..<30] current_stock reorder_point ideal_stock
                    inventory g1 of
               (Inl e, g2) \<Rightarrow> (Inl e, g2)
             | (Inr inventory, g2) \<Rightarrow> inventory_products now rest inventory g2)"

definition generate_inventory ::
  "datetime \<Rightarrow> product list \<Rightarrow> rng \<Rightarrow> (error + inventory_record list) \<times> rng" where
  "generate_inventory now products_df g = inventory_products now products_df [] g"

subsection \<open>\<^verbatim>\<open>EcommerceDataGenerator.generate_all_data\<close>\<close>

definition customer_stats :: "sale list \<Rightarrow> (nat \<times> rat \<times> nat \<times> int) list" where
  \<comment> \<open>\<^verbatim>\<open>sales.groupby("customer_id").agg({"total": "sum", "sale_id": "count",
      "date": "max"}).reset_index()\<close>: one row per customer id that occurs, in ascending
      order of the id\<close>
  "customer_stats sales =
     map (\<lambda>cid. let grp = filter (\<lambda>s. s_customer_id s = cid) sales
                in (cid, sum_list (map s_total grp), length grp, Max (set (map s_date grp))))
         (sort (remdups (map s_customer_id sales)))"

definition update_customer_stats :: "customer list \<Rightarrow> sale list \<Rightarrow> customer list" where
  \<comment> \<open>the left merge on \<^verbatim>\<open>customer_id\<close> and the assignment under the mask
      \<^verbatim>\<open>calc_total_spent.notna()\<close>; skipped when \<^verbatim>\<open>sales\<close> is empty\<close>
  "update_customer_stats customers sales =
     (if sales = [] then customers
      else map (\<lambda>c. case map_of (customer_stats sales) (c_customer_id c) of
                       None \<Rightarrow> c
                     | Some (calc_total_spent, calc_total_orders, calc_last_purchase) \<Rightarrow>
                         c\<lparr> c_total_spent := calc_total_spent,
                            c_total_orders := calc_total_orders,
                            c_last_purchase_date := Some calc_last_purchase \<rparr>)
               customers)"

record tables =
  t_products :: "product list"
  t_customers :: "customer list"
  t_sales :: "sale list"
  t_inventory :: "inventory_record list"

definition generate_all_data :: "config \<Rightarrow> datetime \<Rightarrow> rng \<Rightarrow> (error + tables) \<times> rng" where
  "generate_all_data cfg now g =
     (case generate_products cfg g of
        (Inl e, g1) \<Rightarrow> (Inl e, g1)
      | (Inr products, g1) \<Rightarrow>
     (let (customers, g2) = generate_customers cfg g1
      in case generate_sales now (n_days cfg) products customers g2 of
           (Inl e, g3) \<Rightarrow> (Inl e, g3)
         | (Inr sales, g3) \<Rightarrow>
        (case generate_inventory now products g3 of
           (Inl e, g4) \<Rightarrow> (Inl e, g4)
         | (Inr inventory, g4) \<Rightarrow>
             (Inr \<lparr> t_products = products,
                        t_customers = update_customer_stats customers sales,
                        t_sales = sales,
                        t_inventory = inventory \<rparr>, g4))))"

subsection \<open>\<^verbatim>\<open>RobustDataGenerator\<close>\<close>

record robust_product =
  rp_product_id :: nat
  rp_category :: string
  rp_price :: rat
  rp_cost :: rat
  rp_margin_pct :: rat

record robust_sale =
  rs_date :: int
  rs_product_id :: nat
  rs_category :: string
  rs_quantity :: nat
  rs_unit_price :: rat
  rs_total :: rat
  rs_cost :: rat
  rs_profit :: rat
  rs_customer_id :: nat
  rs_region :: string

text \<open>The column \<^verbatim>\<open>name\<close> (\<^verbatim>\<open>f'Product {i}'\<close>) and its copy
  \<^verbatim>\<open>product_name\<close> are left out.\<close>

definition robust_make_product :: "nat \<Rightarrow> rng \<Rightarrow> robust_product \<times> rng" where
  "robust_make_product i g =
     (let (category, g1) =
            py_choice [''Electronics'', ''Clothing'', ''Home'', ''Sports'', ''Books''] g;
          (p, g2) = np_uniform 10 500 g1;
          price = py_round p 2;
          (m, g3) = np_uniform (3 / 10) (7 / 10) g2;
          cost = py_round (price * m) 2
      in (\<lparr> rp_product_id = i,
             rp_category = category,
             rp_price = price,
             rp_cost = cost,
             rp_margin_pct = py_round ((price - cost) / price * 100) 1 \<rparr>, g3))"

fun robust_products_loop ::
  "nat list \<Rightarrow> robust_product list \<Rightarrow> rng \<Rightarrow> robust_product list \<times> rng" where
  "robust_products_loop [] data g = (data, g)"
| "robust_products_loop (i # is) data g =
     (let (product, g') = robust_make_product i g in robust_products_loop is (data @ [product]) g')"

definition robust_generate_products :: "rng \<Rightarrow> robust_product list \<times> rng" where
  \<comment> \<open>\<^verbatim>\<open>n_products = 100\<close>\<close>
  "robust_generate_products g = robust_products_loop [1..<100 + 1] [] g"

definition df_sample1 :: "'a list \<Rightarrow> rng \<Rightarrow> (error + 'a) \<times> rng" where
  \<comment> \<open>\<^verbatim>\<open>products_df.sample(1).iloc[0]\<close>: one row at a drawn position;
      \<^verbatim>\<open>ValueError\<close> on an empty frame\<close>
  "df_sample1 df g =
     (case np_randint 0 (int (length df)) g of
        (Inl e, g') \<Rightarrow> (Inl e, g')
      | (Inr i, g') \<Rightarrow> (Inr (df ! nat i), g'))"

definition robust_make_sale ::
  "robust_product list \<Rightarrow> datetime \<Rightarrow> rng \<Rightarrow> (error + robust_sale) \<times> rng" where
  "robust_make_sale products_df current_date g =
     (case df_sample1 products_df g of
        (Inl e, g1) \<Rightarrow> (Inl e, g1)
      | (Inr product, g1) \<Rightarrow>
     (case np_randint 1 4 g1 of
        (Inl e, g2) \<Rightarrow> (Inl e, g2)
      | (Inr quantity, g2) \<Rightarrow>
     (let total = py_round (rp_price product * of_int quantity) 2;
          profit = py_round ((rp_price product - rp_cost product) * of_int quantity) 2
      in case np_randint 1 1001 g2 of
           (Inl e, g3) \<Rightarrow> (Inl e, g3)
         | (Inr customer_id, g3) \<Rightarrow>
             let (region, g4) = py_choice [''North'', ''South'', ''East'', ''West'', ''Central''] g3
             in (Inr \<lparr> rs_date = date_of current_date,
                        rs_product_id = rp_product_id product,
                        rs_category = rp_category product,
                        rs_quantity = nat quantity,
                        rs_unit_price = rp_price product,
                        rs_total = total,
                        rs_cost = py_round (rp_cost product * of_int quantity) 2,
                        rs_profit = profit,
                        rs_customer_id = nat customer_id,
                        rs_region = region \<rparr>, g4))))"

fun robust_sales_loop ::
  "robust_product list \<Rightarrow> datetime \<Rightarrow> nat \<Rightarrow> robust_sale list \<Rightarrow> rng
     \<Rightarrow> (error + robust_sale list) \<times> rng" where
  "robust_sales_loop products_df current_date 0 sales g = (Inr sales, g)"
| "robust_sales_loop products_df current_date (Suc n) sales g =
     (case robust_make_sale products_df current_date g of
        (Inl e, g') \<Rightarrow> (Inl e, g')
      | (Inr sale, g') \<Rightarrow> robust_sales_loop products_df current_date n (sales @ [sale]) g')"

fun robust_days_loop ::
  "robust_product list \<Rightarrow> datetime \<Rightarrow> nat list \<Rightarrow> robust_sale list \<Rightarrow> rng
     \<Rightarrow> (error + robust_sale list) \<times> rng" where
  \<comment> \<open>\<^verbatim>\<open>for day in range(n_days)\<close>\<close>
  "robust_days_loop products_df start_date [] sales g = (Inr sales, g)"
| "robust_days_loop products_df start_date (day # days) sales g =
     (let current_date = add_days start_date (int day);
          is_weekend = (weekday (dt_day current_date) \<ge> 5);
          (n_sales, g1) = np_poisson (if is_weekend then 60 else 40) g
      in case robust_sales_loop products_df current_date n_sales sales g1 of
           (Inl e, g2) \<Rightarrow> (Inl e, g2)
         | (Inr sales, g2) \<Rightarrow> robust_days_loop products_df start_date days sales g2)"

definition robust_generate_sales ::
  "datetime \<Rightarrow> robust_product list \<Rightarrow> nat \<Rightarrow> rng \<Rightarrow> (error + robust_sale list) \<times> rng" where
  "robust_generate_sales now products_df ndays g =
     (let start_date = add_days now (- int ndays)
      in robust_days_loop products_df start_date [0..<ndays] [] g)"

record robust_tables =
  rt_products :: "robust_product list"
  rt_sales :: "robust_sale list"

definition robust_generate_all :: "datetime \<Rightarrow> rng \<Rightarrow> (error + robust_tables) \<times> rng" where
  \<comment> \<open>the dictionary returned has the two keys \<^verbatim>\<open>products\<close> and
      \<^verbatim>\<open>sales\<close>: this generator builds no customer table\<close>
  "robust_generate_all now g =
     (let (products, g1) = robust_generate_products g
      in case robust_generate_sales now products 180 g1 of
           (Inl e, g2) \<Rightarrow> (Inl e, g2)
         | (Inr sales, g2) \<Rightarrow> (Inr \<lparr> rt_products = products, rt_sales = sales \<rparr>, g2))"

subsection \<open>Concrete inputs\<close>

definition ex_now :: datetime where
  \<comment> \<open>Wednesday 2026-11-04, 00:00:00.000000\<close>
  "ex_now = \<lparr> dt_day = 739924, dt_micros = 0 \<rparr>"

definition ex_product :: product where
  "ex_product =
     \<lparr> p_product_id = 1, p_category = ''Hogar'', p_subcategory = ''Cocina'', p_price = 100,
       p_cost = 40, p_margin = 60, p_weight_kg = 1 \<rparr>"

definition ex_customer :: customer where
  "ex_customer =
     \<lparr> c_customer_id = 1, c_region = ''Norte'', c_customer_type = ''Regular'',
       c_last_purchase_date = None, c_total_spent = 0, c_total_orders = 0 \<rparr>"

definition ex_rng :: rng where
  \<comment> \<open>Poisson draw 1; then a sale with quantity 2 and no discount, and a sale with
      quantity 1 and the discount \<open>0.3 * 0.414 = 0.1242\<close>\<close>
  "ex_rng =
     \<lparr> np_raw = [1, 0, 0, 7 / 10, 1 / 2, 0, 0, 0, 1 / 10, 414 / 1000], py_raw = [1, 2, 3, 0],
       drawn = 0 \<rparr>"

definition ex_monday :: datetime where
  \<comment> \<open>Monday 2026-03-02\<close>
  "ex_monday = \<lparr> dt_day = 739677, dt_micros = 0 \<rparr>"

definition ex_odd_product :: product where
  \<comment> \<open>a catalogue row whose cost has three decimals\<close>
  "ex_odd_product =
     \<lparr> p_product_id = 1, p_category = ''Hogar'', p_subcategory = ''Cocina'', p_price = 1 / 2,
       p_cost = 1 / 8, p_margin = 75, p_weight_kg = 1 \<rparr>"

definition ex_second_product :: product where
  "ex_second_product =
     \<lparr> p_product_id = 2, p_category = ''Ropa'', p_subcategory = ''Hombre'', p_price = 80,
       p_cost = 30, p_margin = 125 / 2, p_weight_kg = 1 \<rparr>"

definition ex_rng_second :: rng where
  \<comment> \<open>Poisson draw 1, then a sale of the second catalogue row with quantity 1 and the
      discount \<open>0.3 * 0.414 = 0.1242\<close>\<close>
  "ex_rng_second =
     \<lparr> np_raw = [1, 1, 0, 0, 1 / 10, 414 / 1000], py_raw = [], drawn = 0 \<rparr>"

definition ex_rng_plain :: rng where
  \<comment> \<open>Poisson draw 1, then a sale with quantity 1 and no discount\<close>
  "ex_rng_plain = \<lparr> np_raw = [1, 0, 0, 0, 1 / 2], py_raw = [], drawn = 0 \<rparr>"

definition ex_robust_product :: robust_product where
  "ex_robust_product =
     \<lparr> rp_product_id = 1, rp_category = ''Home'', rp_price = 100, rp_cost = 40,
       rp_margin_pct = 60 \<rparr>"

definition ex_rng_robust :: rng where
  \<comment> \<open>Poisson draw 1, then a sale of product 0 with quantity 1 and customer id 1000\<close>
  "ex_rng_robust = \<lparr> np_raw = [1, 0, 0, 999], py_raw = [], drawn = 0 \<rparr>"

definition ex_sunday :: datetime where
  \<comment> \<open>Sunday 2026-03-01\<close>
  "ex_sunday = \<lparr> dt_day = 739676, dt_micros = 0 \<rparr>"

definition ex_rng_sunday :: rng where
  \<comment> \<open>Poisson draw 2, then sales with quantity 1 and no discount\<close>
  "ex_rng_sunday =
     \<lparr> np_raw = [2, 0, 0, 0, 1 / 2, 0, 0, 0, 1 / 2, 0, 0, 0, 1 / 2], py_raw = [], drawn = 0 \<rparr>"

definition ex_rng_restock :: rng where
  \<comment> \<open>initial stock 10; day 0 sells 5; day 1 sells 2, draws 0.1 for the restock test and
      the restock amount \<open>3 + 11 = 14\<close>\<close>
  "ex_rng_restock = \<lparr> np_raw = [0, 5, 2, 1 / 10, 11], py_raw = [], drawn = 0 \<rparr>"

definition ex_rng_day :: rng where
  \<comment> \<open>the state of \<open>ex_rng_restock\<close> at the start of day 1\<close>
  "ex_rng_day = \<lparr> np_raw = [2, 1 / 10, 11], py_raw = [], drawn = 2 \<rparr>"



definition ex_config_small :: config where
  "ex_config_small = \<lparr> n_products = 1, n_customers = 2, n_days = 1 \<rparr>"

definition ex_rng_pipeline :: rng where
  \<comment> \<open>one product of price 50 and cost 25; Poisson draw 1 on a November weekday, hence
      two sales, both to the first customer, of quantity 1 and 2 and without discount;
      initial stock 10\<close>
  "ex_rng_pipeline =
     \<lparr> np_raw = [5, 1 / 2, 0, 1, 0, 0, 0, 1 / 2, 0, 0, 7 / 10, 1 / 2, 0], py_raw = [],
       drawn = 0 \<rparr>"

definition ex_later :: datetime where
  \<comment> \<open>one microsecond after \<open>ex_now\<close>\<close>
  "ex_later = \<lparr> dt_day = 739924, dt_micros = 1 \<rparr>"

definition ex_tomorrow :: datetime where
  \<comment> \<open>one day after \<open>ex_now\<close>\<close>
  "ex_tomorrow = \<lparr> dt_day = 739925, dt_micros = 0 \<rparr>"


definition ex_rng_all :: rng where
  \<comment> \<open>200 draws for the catalogue of \<^verbatim>\<open>RobustDataGenerator\<close>, then Poisson draw 1
      and a sale of product 0 with quantity 1 and customer id 1000\<close>
  "ex_rng_all = \<lparr> np_raw = replicate 200 0 @ [1, 0, 0, 999], py_raw = [], drawn = 0 \<rparr>"

subsection \<open>The claims' own formulas\<close>

definition claimed_total :: "sale \<Rightarrow> rat" where
  \<comment> \<open>\<^verbatim>\<open>round(unit_price*quantity*(1-discount_pct/100), 2)\<close> on the stored fields\<close>
  "claimed_total s =
     py_round (s_unit_price s * of_nat (s_quantity s) * (1 - s_discount_pct s / 100)) 2"

definition claimed_profit :: "sale \<Rightarrow> rat" where
  \<comment> \<open>\<^verbatim>\<open>round((unit_price-cost)*quantity*(1-discount_pct/100), 2)\<close> on the stored
      fields\<close>
  "claimed_profit s =
     py_round ((s_unit_price s - s_cost s) * of_nat (s_quantity s) * (1 - s_discount_pct s / 100)) 2"

definition sales_of :: "nat \<Rightarrow> sale list \<Rightarrow> sale list" where
  \<comment> \<open>C3: the Sales whose \<open>customer_id\<close> matches\<close>
  "sales_of cid sales = filter (\<lambda>s. s_customer_id s = cid) sales"

definition claimed_day_factor :: "int \<Rightarrow> rat" where
  \<comment> \<open>C6: 1.5 exactly when the day is Friday or Saturday\<close>
  "claimed_day_factor wd = (if wd = 4 \<or> wd = 5 then 3 / 2 else 1)"

definition weekend_day_factor :: "int \<Rightarrow> rat" where
  \<comment> \<open>1.5 exactly when the day is Friday, Saturday or Sunday\<close>
  "weekend_day_factor wd = (if wd = 4 \<or> wd = 5 \<or> wd = 6 then 3 / 2 else 1)"

definition month_factor :: "int \<Rightarrow> rat" where
  \<comment> \<open>C6: 2.5 for December, 2.0 for November, 1.3 for June and July, 1.0 otherwise\<close>
  "month_factor m =
     (if m = 12 then 5 / 2 else if m = 11 then 2 else if m = 6 \<or> m = 7 then 13 / 10 else 1)"

definition robust_customers :: "robust_tables \<Rightarrow> customer list" where
  \<comment> \<open>the customer table of a result of \<^verbatim>\<open>RobustDataGenerator.generate_all\<close>: the
      class has no customer generator and the result no such key\<close>
  "robust_customers t = []"

section \<open>Properties\<close>

subsection \<open>Ranges of the random primitives\<close>

lemma unit_frac_range: "0 \<le> unit_frac r \<and> unit_frac r < 1"
  unfolding unit_frac_def by linarith

lemma np_random_range: "np_random g = (u, g') \<Longrightarrow> 0 \<le> u \<and> u < 1"
  by (auto simp: np_random_def unit_frac_range split: prod.splits)

lemma np_uniform_range:
  "np_uniform lo hi g = (x, g') \<Longrightarrow> lo < hi \<Longrightarrow> lo \<le> x \<and> x < hi"
proof -
  assume a: "np_uniform lo hi g = (x, g')" and lt: "lo < hi"
  then obtain u where u: "0 \<le> u" "u < 1" and x: "x = lo + (hi - lo) * u"
    by (auto simp: np_uniform_def split: prod.splits dest: np_random_range)
  have "(hi - lo) * u < (hi - lo) * 1"
    using u(2) lt by (intro mult_strict_left_mono) simp_all
  moreover have "0 \<le> (hi - lo) * u" using u(1) lt by simp
  ultimately show ?thesis using x by simp
qed

lemma np_randint_range:
  "np_randint lo hi g = (Inr i, g') \<Longrightarrow> lo \<le> i \<and> i < hi"
proof -
  assume "np_randint lo hi g = (Inr i, g')"
  then obtain r :: rat where lt: "lo < hi" and i: "i = lo + \<lfloor>r\<rfloor> mod (hi - lo)"
    by (auto simp: np_randint_def split: if_splits prod.splits)
  from lt have "0 \<le> \<lfloor>r\<rfloor> mod (hi - lo)" "\<lfloor>r\<rfloor> mod (hi - lo) < hi - lo"
    by simp_all
  with i show ?thesis by linarith
qed

lemma np_randint_nth:
  "np_randint 0 (int (length xs)) g = (Inr i, g') \<Longrightarrow> xs ! nat i \<in> set xs"
  by (drule np_randint_range) (simp add: nat_less_iff)

lemma choice_quantity:
  "choice_at [1, 2, 3, 4, 5::nat] [6 / 10, 2 / 10, 1 / 10, 5 / 100, 5 / 100] u 5 \<in> {1..5}"
  by simp

subsection \<open>What one sale holds\<close>

lemma make_sale_fields:
  assumes "make_sale ps cs d sid g = (Inr s, g')"
  shows "\<exists>p \<in> set ps. \<exists>c \<in> set cs. \<exists>disc.
           0 \<le> disc \<and> disc < 3 / 10 \<and>
           s_product_id s = p_product_id p \<and>
           s_customer_id s = c_customer_id c \<and>
           s_unit_price s = p_price p \<and>
           1 \<le> s_quantity s \<and> s_quantity s \<le> 5 \<and>
           s_subtotal s = py_round (p_price p * of_nat (s_quantity s)) 2 \<and>
           s_discount_pct s = py_round (disc * 100) 1 \<and>
           s_discount_amount s = py_round (p_price p * of_nat (s_quantity s) * disc) 2 \<and>
           s_total s =
             py_round (p_price p * of_nat (s_quantity s)
                         - p_price p * of_nat (s_quantity s) * disc) 2 \<and>
           s_cost s = p_cost p * of_nat (s_quantity s) \<and>
           s_profit s = py_round ((p_price p - p_cost p) * of_nat (s_quantity s) * (1 - disc)) 2"
proof -
  from assms obtain i g1 where i: "np_randint 0 (int (length ps)) g = (Inr i, g1)"
    by (auto simp: make_sale_def split: prod.splits sum.splits)
  from assms i obtain j g2 where j: "np_randint 0 (int (length cs)) g1 = (Inr j, g2)"
    by (auto simp: make_sale_def split: prod.splits sum.splits)
  obtain q g3 where
    q: "np_choice [1, 2, 3, 4, 5::nat] [6 / 10, 2 / 10, 1 / 10, 5 / 100, 5 / 100] g2 = (q, g3)"
    by (cases "np_choice [1, 2, 3, 4, 5::nat] [6 / 10, 2 / 10, 1 / 10, 5 / 100, 5 / 100] g2")
  obtain u g4 where u: "np_random g3 = (u, g4)"
    by (cases "np_random g3")
  obtain disc g5 where
    disc: "(if u < 2 / 10 then np_uniform 0 (3 / 10) g4 else (0, g4)) = (disc, g5)"
    by (cases "if u < 2 / 10 then np_uniform 0 (3 / 10) g4 else (0, g4)")
  have qr: "1 \<le> q \<and> q \<le> 5"
    using q choice_quantity by (auto simp: np_choice_def split: prod.splits)
  have dr: "0 \<le> disc \<and> disc < 3 / 10"
    using disc np_uniform_range [of 0 "3 / 10" g4 disc g5] by (auto split: if_splits)
  let ?p = "ps ! nat i" and ?c = "cs ! nat j"
  have mem: "?p \<in> set ps" "?c \<in> set cs"
    using np_randint_nth [OF i] np_randint_nth [OF j] by simp_all
  obtain pm g6 where
    pm: "py_choice [''Tarjeta'', ''Transferencia'', ''Efectivo'', ''MercadoPago''] g5 = (pm, g6)"
    by (cases "py_choice [''Tarjeta'', ''Transferencia'', ''Efectivo'', ''MercadoPago''] g5")
  obtain ch g7 where ch: "py_choice [''Web'', ''App'', ''Fisico'', ''Marketplace''] g6 = (ch, g7)"
    by (cases "py_choice [''Web'', ''App'', ''Fisico'', ''Marketplace''] g6")
  have s: "s_product_id s = p_product_id ?p \<and>
           s_customer_id s = c_customer_id ?c \<and>
           s_unit_price s = p_price ?p \<and>
           s_quantity s = q \<and>
           s_subtotal s = py_round (p_price ?p * of_nat q) 2 \<and>
           s_discount_pct s = py_round (disc * 100) 1 \<and>
           s_discount_amount s = py_round (p_price ?p * of_nat q * disc) 2 \<and>
           s_total s = py_round (p_price ?p * of_nat q - p_price ?p * of_nat q * disc) 2 \<and>
           s_cost s = p_cost ?p * of_nat q \<and>
           s_profit s = py_round ((p_price ?p - p_cost ?p) * of_nat q * (1 - disc)) 2"
    using assms unfolding make_sale_def i j Let_def q u disc pm ch sum.case prod.case
    by auto
  show ?thesis
    using mem dr qr s by blast
qed

lemma make_sale_id:
  "make_sale ps cs d sid g = (Inr s, g') \<Longrightarrow> s_sale_id s = sid"
  by (auto simp: make_sale_def Let_def split: prod.splits sum.splits if_splits)

lemma make_sale_date:
  "make_sale ps cs d sid g = (Inr s, g') \<Longrightarrow> s_date s = dt_day d"
  by (auto simp: make_sale_def Let_def date_of_def split: prod.splits sum.splits if_splits)

subsection \<open>The two loops\<close>

lemma sales_loop_block:
  "sales_loop ps cs d n sales sid g = (Inr (sales', sid'), g') \<Longrightarrow>
   \<exists>blk. sales' = sales @ blk \<and> length blk = n \<and> sid' = sid + n \<and>
         (\<forall>s \<in> set blk. \<exists>sid0 g0 g1. make_sale ps cs d sid0 g0 = (Inr s, g1))"
proof (induction n arbitrary: sales sid g)
  case 0
  then show ?case by simp
next
  case (Suc n)
  from Suc.prems obtain s g1 where
    ms: "make_sale ps cs d sid g = (Inr s, g1)" and
    rest: "sales_loop ps cs d n (sales @ [s]) (sid + 1) g1 = (Inr (sales', sid'), g')"
    by (auto split: prod.splits sum.splits)
  from Suc.IH [OF rest] obtain blk where
    blk: "sales' = (sales @ [s]) @ blk" "length blk = n" "sid' = sid + 1 + n"
      "\<forall>s \<in> set blk. \<exists>sid0 g0 g1. make_sale ps cs d sid0 g0 = (Inr s, g1)"
    by blast
  have "\<forall>x \<in> set (s # blk). \<exists>sid0 g0 g1. make_sale ps cs d sid0 g0 = (Inr x, g1)"
    using ms blk(4) by auto
  moreover have "sales' = sales @ (s # blk)" "length (s # blk) = Suc n" "sid' = sid + Suc n"
    using blk(1-3) by simp_all
  ultimately show ?case by blast
qed

lemma sales_loop_ids:
  "sales_loop ps cs d n sales sid g = (Inr (sales', sid'), g') \<Longrightarrow>
   map s_sale_id sales = [1..<sid] \<Longrightarrow> 0 < sid \<Longrightarrow>
   map s_sale_id sales' = [1..<sid'] \<and> 0 < sid'"
proof (induction n arbitrary: sales sid g)
  case 0
  then show ?case by simp
next
  case (Suc n)
  from Suc.prems(1) obtain s g1 where
    ms: "make_sale ps cs d sid g = (Inr s, g1)" and
    rest: "sales_loop ps cs d n (sales @ [s]) (sid + 1) g1 = (Inr (sales', sid'), g')"
    by (auto split: prod.splits sum.splits)
  have "map s_sale_id (sales @ [s]) = [1..<sid + 1]"
    using Suc.prems(2,3) make_sale_id [OF ms] by simp
  then show ?case
    using Suc.IH [OF rest] by simp
qed

lemma day_body_ids:
  "day_body ps cs d sales sid g = (Inr (sales', sid'), g') \<Longrightarrow>
   map s_sale_id sales = [1..<sid] \<Longrightarrow> 0 < sid \<Longrightarrow>
   map s_sale_id sales' = [1..<sid'] \<and> 0 < sid'"
  unfolding day_body_def Let_def
  by (auto split: prod.splits dest: sales_loop_ids)

lemma day_body_block:
  "day_body ps cs d sales sid g = (Inr (sales', sid'), g') \<Longrightarrow>
   \<exists>blk. sales' = sales @ blk \<and>
         length blk = daily_count d (fst (np_poisson 50 g)) \<and>
         (\<forall>s \<in> set blk. \<exists>sid0 g0 g1. make_sale ps cs d sid0 g0 = (Inr s, g1))"
  unfolding day_body_def Let_def
  by (auto split: prod.splits dest!: sales_loop_block)

lemma days_loop_ids:
  "days_loop ps cs k d sales sid g = (Inr (sales', sid'), g') \<Longrightarrow>
   map s_sale_id sales = [1..<sid] \<Longrightarrow> 0 < sid \<Longrightarrow>
   map s_sale_id sales' = [1..<sid'] \<and> 0 < sid'"
proof (induction k arbitrary: d sales sid g)
  case 0
  then show ?case by simp
next
  case (Suc k)
  from Suc.prems(1) obtain sales1 sid1 g2 where
    day: "day_body ps cs (add_days d 1) sales sid g = (Inr (sales1, sid1), g2)" and
    rest: "days_loop ps cs k (add_days d 1) sales1 sid1 g2 = (Inr (sales', sid'), g')"
    by (auto simp: Let_def split: prod.splits sum.splits)
  from day_body_ids [OF day Suc.prems(2,3)]
  have "map s_sale_id sales1 = [1..<sid1]" "0 < sid1" by simp_all
  then show ?case
    using Suc.IH [OF rest] by simp
qed

lemma days_loop_dates:
  "days_loop ps cs k d sales sid g = (Inr (sales', sid'), g') \<Longrightarrow>
   \<exists>new. sales' = sales @ new \<and> sorted (map s_date new) \<and>
         (\<forall>s \<in> set new. dt_day d < s_date s \<and> s_date s \<le> dt_day d + int k) \<and>
         (\<forall>s \<in> set new. \<exists>d0 sid0 g0 g1. make_sale ps cs d0 sid0 g0 = (Inr s, g1))"
proof (induction k arbitrary: d sales sid g)
  case 0
  then show ?case by simp
next
  case (Suc k)
  let ?d = "add_days d 1"
  have dd: "dt_day ?d = dt_day d + 1" by (simp add: add_days_def)
  from Suc.prems(1) obtain sales1 sid1 g2 where
    day: "day_body ps cs ?d sales sid g = (Inr (sales1, sid1), g2)" and
    rest: "days_loop ps cs k ?d sales1 sid1 g2 = (Inr (sales', sid'), g')"
    by (auto simp: Let_def split: prod.splits sum.splits)
  from day_body_block [OF day] obtain blk where
    blk: "sales1 = sales @ blk"
      "\<forall>s \<in> set blk. \<exists>sid0 g0 g1. make_sale ps cs ?d sid0 g0 = (Inr s, g1)"
    by blast
  have blk_date: "\<forall>s \<in> set blk. s_date s = dt_day d + 1"
    using blk(2) dd by (metis make_sale_date)
  from Suc.IH [OF rest] obtain new where
    new: "sales' = sales1 @ new" "sorted (map s_date new)"
      "\<forall>s \<in> set new. dt_day ?d < s_date s \<and> s_date s \<le> dt_day ?d + int k"
      "\<forall>s \<in> set new. \<exists>d0 sid0 g0 g1. make_sale ps cs d0 sid0 g0 = (Inr s, g1)"
    by blast
  have "sorted (map s_date blk)"
    using blk_date by (induction blk) auto
  then have "sorted (map s_date (blk @ new))"
    using new(2,3) blk_date dd by (auto simp: sorted_append)
  moreover have "\<forall>s \<in> set (blk @ new). dt_day d < s_date s \<and> s_date s \<le> dt_day d + int (Suc k)"
    using new(3) blk_date dd by auto
  moreover have "\<forall>s \<in> set (blk @ new). \<exists>d0 sid0 g0 g1. make_sale ps cs d0 sid0 g0 = (Inr s, g1)"
    using new(4) blk(2) by (metis Un_iff set_append)
  moreover have "sales' = sales @ (blk @ new)"
    using blk(1) new(1) by simp
  ultimately show ?case by blast
qed

lemma generate_sales_loop:
  "generate_sales now k ps cs g = (Inr sales, g') \<Longrightarrow>
   \<exists>sid. days_loop ps cs k (add_days now (- int k)) [] 1 g = (Inr (sales, sid), g')"
  by (auto simp: generate_sales_def Let_def split: prod.splits sum.splits)

lemma generate_sales_made:
  "generate_sales now k ps cs g = (Inr sales, g') \<Longrightarrow>
   \<forall>s \<in> set sales. \<exists>d0 sid0 g0 g1. make_sale ps cs d0 sid0 g0 = (Inr s, g1)"
proof -
  assume run: "generate_sales now k ps cs g = (Inr sales, g')"
  from generate_sales_loop [OF run] obtain sid where
    loop: "days_loop ps cs k (add_days now (- int k)) [] 1 g = (Inr (sales, sid), g')" ..
  from days_loop_dates [OF loop] show ?thesis by auto
qed

lemma result_Inr: "\<not> isl (fst X) \<Longrightarrow> X = (Inr (projr (fst X)), snd X)"
  by (cases X; cases "fst X") auto

lemma ex_run_ok:
  "\<not> isl (fst (generate_sales ex_now 1 [ex_product] [ex_customer] ex_rng))"
  by code_simp

lemma ex_run_length:
  "length (projr (fst (generate_sales ex_now 1 [ex_product] [ex_customer] ex_rng))) = 2"
  by code_simp

lemma ex_run:
  "\<exists>sales g'. generate_sales ex_now 1 [ex_product] [ex_customer] ex_rng = (Inr sales, g') \<and>
              length sales = 2"
proof -
  obtain r g' where run: "generate_sales ex_now 1 [ex_product] [ex_customer] ex_rng = (r, g')"
    by (cases "generate_sales ex_now 1 [ex_product] [ex_customer] ex_rng")
  with ex_run_ok obtain sales where r: "r = Inr sales"
    by (cases r) auto
  with run ex_run_length have "length sales = 2" by simp
  with run r show ?thesis by blast
qed

subsection \<open>Sale ids\<close>

text \<open>
  C5. Whenever \<^verbatim>\<open>generate_sales\<close> returns a table, the sale ids read in emission
  order are exactly 1, 2, ..., \<open>length sales\<close>: one counter for the whole run, no gap
  and no repeat.
\<close>

theorem sale_ids_consecutive:
  "generate_sales now k products_df customers_df g = (Inr sales, g') \<Longrightarrow>
   map s_sale_id sales = [1..<Suc (length sales)]"
proof -
  assume run: "generate_sales now k products_df customers_df g = (Inr sales, g')"
  from generate_sales_loop [OF run] obtain sid where
    loop: "days_loop products_df customers_df k (add_days now (- int k)) [] 1 g
             = (Inr (sales, sid), g')" ..
  have ids: "map s_sale_id sales = [1..<sid]" and pos: "0 < sid"
    using days_loop_ids [OF loop] by simp_all
  from ids have "length sales = sid - 1"
    by (metis length_map length_upt)
  with ids pos show ?thesis by simp
qed

theorem sale_ids_consecutive_witness:
  "\<exists>sales g'. generate_sales ex_now 1 [ex_product] [ex_customer] ex_rng = (Inr sales, g') \<and>
              length sales = 2 \<and> map s_sale_id sales = [1..<Suc (length sales)]"
proof -
  from ex_run obtain sales g' where
    run: "generate_sales ex_now 1 [ex_product] [ex_customer] ex_rng = (Inr sales, g')" and
    len: "length sales = 2"
    by blast
  from sale_ids_consecutive [OF run] len run show ?thesis by blast
qed

subsection \<open>Chronological order\<close>

text \<open>
  C10. Whenever \<^verbatim>\<open>generate_sales\<close> returns a table, its dates are non-decreasing in
  emission order, so that a larger sale id never has an earlier date, and every date is
  one of the \<open>n_days\<close> consecutive days that end on the day of the clock reading.
\<close>

theorem sales_chronological:
  "generate_sales now k products_df customers_df g = (Inr sales, g') \<Longrightarrow>
   sorted (map s_date sales) \<and>
   (\<forall>i j. i < j \<and> j < length sales \<longrightarrow>
      s_sale_id (sales ! i) < s_sale_id (sales ! j) \<and> s_date (sales ! i) \<le> s_date (sales ! j)) \<and>
   (\<forall>s \<in> set sales. date_of now - int k < s_date s \<and> s_date s \<le> date_of now)"
proof -
  assume run: "generate_sales now k products_df customers_df g = (Inr sales, g')"
  from generate_sales_loop [OF run] obtain sid where
    loop: "days_loop products_df customers_df k (add_days now (- int k)) [] 1 g
             = (Inr (sales, sid), g')" ..
  from days_loop_dates [OF loop] have
    srt: "sorted (map s_date sales)" and
    win: "\<forall>s \<in> set sales. dt_day (add_days now (- int k)) < s_date s \<and>
                          s_date s \<le> dt_day (add_days now (- int k)) + int k"
    by auto
  have ids: "map s_sale_id sales = [1..<sid]"
    using days_loop_ids [OF loop] by simp
  have "s_sale_id (sales ! i) < s_sale_id (sales ! j) \<and> s_date (sales ! i) \<le> s_date (sales ! j)"
    if ij: "i < j" "j < length sales" for i j
  proof -
    have len: "length sales = sid - 1"
      using ids by (metis length_map length_upt)
    have "s_sale_id (sales ! i) = [1..<sid] ! i" "s_sale_id (sales ! j) = [1..<sid] ! j"
      using ids ij by (metis dual_order.strict_trans nth_map)+
    then have "s_sale_id (sales ! i) < s_sale_id (sales ! j)"
      using ij len by simp
    moreover have "map s_date sales ! i \<le> map s_date sales ! j"
      using srt ij by (simp add: sorted_iff_nth_mono)
    ultimately show ?thesis using ij by simp
  qed
  moreover have "\<forall>s \<in> set sales. date_of now - int k < s_date s \<and> s_date s \<le> date_of now"
    using win by (simp add: add_days_def date_of_def)
  ultimately show ?thesis using srt by blast
qed

theorem sales_chronological_witness:
  "\<exists>sales g'. generate_sales ex_now 1 [ex_product] [ex_customer] ex_rng = (Inr sales, g') \<and>
     length sales = 2 \<and> sorted (map s_date sales) \<and>
     s_sale_id (sales ! 0) < s_sale_id (sales ! 1) \<and> s_date (sales ! 0) \<le> s_date (sales ! 1) \<and>
     s_date (sales ! 0) = 739924 \<and> s_date (sales ! 1) = 739924"
proof -
  from ex_run obtain sales g' where
    run: "generate_sales ex_now 1 [ex_product] [ex_customer] ex_rng = (Inr sales, g')" and
    len: "length sales = 2"
    by blast
  note c = sales_chronological [OF run]
  from c len have ord: "s_sale_id (sales ! 0) < s_sale_id (sales ! 1) \<and>
      s_date (sales ! 0) \<le> s_date (sales ! 1)"
    by simp
  have "sales ! 0 \<in> set sales" "sales ! 1 \<in> set sales"
    using len by simp_all
  with c have "s_date (sales ! 0) = 739924" "s_date (sales ! 1) = 739924"
    by (auto simp: date_of_def ex_now_def)
  with c ord run len show ?thesis by blast
qed

subsection \<open>Arithmetic of a sale\<close>

lemma distinct_ids_unique:
  "distinct (map p_product_id ps) \<Longrightarrow> p \<in> set ps \<Longrightarrow> p' \<in> set ps \<Longrightarrow>
   p_product_id p' = p_product_id p \<Longrightarrow> p' = p"
  by (meson distinct_map inj_on_eq_iff)

text \<open>
  C2, as the code has it. For every sale of a returned table there are the catalogue row
  of the sale's product (the row with the sale's \<open>product_id\<close>, the only one when the
  ids of the catalogue are distinct) and a discount fraction in [0, 0.3) (the value drawn,
  which is not stored) such that \<open>unit_price\<close> is the price of that row, and
  \<open>total\<close> and \<open>profit\<close> are the two-decimal roundings of
  \<open>unit_price * quantity * (1 - discount)\<close> and
  \<open>(unit_price - unit cost) * quantity * (1 - discount)\<close>, the unit cost being the cost
  of that row; the stored \<open>discount_pct\<close> is \<open>100 * discount\<close> rounded to one
  decimal.
\<close>

theorem sale_arithmetic:
  "generate_sales now k products_df customers_df g = (Inr sales, g') \<Longrightarrow>
   \<forall>s \<in> set sales. \<exists>p \<in> set products_df. \<exists>discount.
     0 \<le> discount \<and> discount < 3 / 10 \<and>
     p_product_id p = s_product_id s \<and>
     (distinct (map p_product_id products_df) \<longrightarrow>
        (\<forall>p' \<in> set products_df. p_product_id p' = s_product_id s \<longrightarrow> p' = p)) \<and>
     s_unit_price s = p_price p \<and>
     s_discount_pct s = py_round (discount * 100) 1 \<and>
     s_total s = py_round (p_price p * of_nat (s_quantity s) * (1 - discount)) 2 \<and>
     s_profit s =
       py_round ((p_price p - p_cost p) * of_nat (s_quantity s) * (1 - discount)) 2"
proof
  fix s
  assume run: "generate_sales now k products_df customers_df g = (Inr sales, g')"
    and s: "s \<in> set sales"
  from generate_sales_made [OF run] s obtain d0 sid0 g0 g1 where
    "make_sale products_df customers_df d0 sid0 g0 = (Inr s, g1)" by blast
  from make_sale_fields [OF this] obtain p disc where
    p: "p \<in> set products_df" and
    f: "0 \<le> disc" "disc < 3 / 10" "s_product_id s = p_product_id p"
       "s_unit_price s = p_price p"
       "s_discount_pct s = py_round (disc * 100) 1"
       "s_total s = py_round (p_price p * of_nat (s_quantity s)
                         - p_price p * of_nat (s_quantity s) * disc) 2"
       "s_profit s = py_round ((p_price p - p_cost p) * of_nat (s_quantity s) * (1 - disc)) 2"
    by blast
  have alg: "p_price p * of_nat (s_quantity s) - p_price p * of_nat (s_quantity s) * disc
        = p_price p * of_nat (s_quantity s) * (1 - disc)"
    by (simp add: algebra_simps)
  have uniq: "distinct (map p_product_id products_df) \<longrightarrow>
        (\<forall>p' \<in> set products_df. p_product_id p' = s_product_id s \<longrightarrow> p' = p)"
    using distinct_ids_unique [of products_df p] p f(3) by auto
  have "0 \<le> disc \<and> disc < 3 / 10 \<and>
     p_product_id p = s_product_id s \<and>
     (distinct (map p_product_id products_df) \<longrightarrow>
        (\<forall>p' \<in> set products_df. p_product_id p' = s_product_id s \<longrightarrow> p' = p)) \<and>
     s_unit_price s = p_price p \<and>
     s_discount_pct s = py_round (disc * 100) 1 \<and>
     s_total s = py_round (p_price p * of_nat (s_quantity s) * (1 - disc)) 2 \<and>
     s_profit s =
       py_round ((p_price p - p_cost p) * of_nat (s_quantity s) * (1 - disc)) 2"
    using f alg uniq by simp
  with p show "\<exists>p \<in> set products_df. \<exists>discount.
     0 \<le> discount \<and> discount < 3 / 10 \<and>
     p_product_id p = s_product_id s \<and>
     (distinct (map p_product_id products_df) \<longrightarrow>
        (\<forall>p' \<in> set products_df. p_product_id p' = s_product_id s \<longrightarrow> p' = p)) \<and>
     s_unit_price s = p_price p \<and>
     s_discount_pct s = py_round (discount * 100) 1 \<and>
     s_total s = py_round (p_price p * of_nat (s_quantity s) * (1 - discount)) 2 \<and>
     s_profit s =
       py_round ((p_price p - p_cost p) * of_nat (s_quantity s) * (1 - discount)) 2"
    by blast
qed

theorem sale_arithmetic_witness:
  "\<exists>sales g' discount.
     generate_sales ex_monday 1 [ex_product, ex_second_product] [ex_customer] ex_rng_second
       = (Inr sales, g') \<and>
     length sales = 1 \<and> 0 \<le> discount \<and> discount < 3 / 10 \<and>
     distinct (map p_product_id [ex_product, ex_second_product]) \<and>
     s_product_id (sales ! 0) = 2 \<and>
     p_product_id ex_second_product = s_product_id (sales ! 0) \<and>
     s_unit_price (sales ! 0) = p_price ex_second_product \<and>
     s_discount_pct (sales ! 0) = py_round (discount * 100) 1 \<and>
     s_discount_pct (sales ! 0) = 124 / 10 \<and>
     s_total (sales ! 0) =
       py_round (p_price ex_second_product * of_nat (s_quantity (sales ! 0)) * (1 - discount)) 2 \<and>
     s_total (sales ! 0) = 7006 / 100 \<and>
     s_profit (sales ! 0) =
       py_round ((p_price ex_second_product - p_cost ex_second_product)
                   * of_nat (s_quantity (sales ! 0)) * (1 - discount)) 2 \<and>
     s_profit (sales ! 0) = 4379 / 100"
proof -
  let ?run = "generate_sales ex_monday 1 [ex_product, ex_second_product] [ex_customer] ex_rng_second"
  let ?sales = "projr (fst ?run)"
  have "\<not> isl (fst ?run)" by code_simp
  then have run: "?run = (Inr ?sales, snd ?run)" by (rule result_Inr)
  have len: "length ?sales = 1" by code_simp
  have v: "s_product_id (?sales ! 0) = 2" "s_discount_pct (?sales ! 0) = 124 / 10"
    "s_total (?sales ! 0) = 7006 / 100" "s_profit (?sales ! 0) = 4379 / 100"
    by code_simp+
  have ids: "p_product_id ex_product = 1" "p_product_id ex_second_product = 2"
    by (simp_all add: ex_product_def ex_second_product_def)
  have dist: "distinct (map p_product_id [ex_product, ex_second_product])"
    using ids by simp
  have mem: "?sales ! 0 \<in> set ?sales" using len by simp
  from sale_arithmetic [OF run] mem obtain p discount where
    p: "p \<in> set [ex_product, ex_second_product]" and
    f: "0 \<le> discount" "discount < 3 / 10"
       "p_product_id p = s_product_id (?sales ! 0)"
       "s_unit_price (?sales ! 0) = p_price p"
       "s_discount_pct (?sales ! 0) = py_round (discount * 100) 1"
       "s_total (?sales ! 0) =
          py_round (p_price p * of_nat (s_quantity (?sales ! 0)) * (1 - discount)) 2"
       "s_profit (?sales ! 0) =
          py_round ((p_price p - p_cost p) * of_nat (s_quantity (?sales ! 0)) * (1 - discount)) 2"
    by blast
  from p f(3) v(1) ids have "p = ex_second_product" by auto
  with f v ids dist run len show ?thesis by blast
qed

text \<open>
  C2 as stated fails: computed from the stored \<open>discount_pct\<close> and the stored
  \<open>cost\<close>, the formulas give 87.60 and 52.56 where the table holds 87.58 and 52.55
  (second sale), and 40 where it holds 120 (first sale, quantity 2).
\<close>

theorem stored_fields_counterexample:
  "s_total (projr (fst (generate_sales ex_now 1 [ex_product] [ex_customer] ex_rng)) ! 1)
     \<noteq> claimed_total (projr (fst (generate_sales ex_now 1 [ex_product] [ex_customer] ex_rng)) ! 1) \<and>
   s_profit (projr (fst (generate_sales ex_now 1 [ex_product] [ex_customer] ex_rng)) ! 1)
     \<noteq> claimed_profit (projr (fst (generate_sales ex_now 1 [ex_product] [ex_customer] ex_rng)) ! 1) \<and>
   s_profit (projr (fst (generate_sales ex_now 1 [ex_product] [ex_customer] ex_rng)) ! 0)
     \<noteq> claimed_profit (projr (fst (generate_sales ex_now 1 [ex_product] [ex_customer] ex_rng)) ! 0)"
  by code_simp

subsection \<open>Rounding of the stored cost\<close>

text \<open>
  C8. \<^verbatim>\<open>"cost": product["cost"] * quantity\<close> is stored as computed: for a unit cost of
  0.125 and quantity 1 the table holds 0.125, not \<open>round(0.125, 2) = 0.12\<close>.
\<close>

theorem sale_cost_not_rounded:
  "s_cost (projr (fst (generate_sales ex_monday 1 [ex_odd_product] [ex_customer] ex_rng_plain)) ! 0)
     = 1 / 8 \<and>
   py_round (p_cost ex_odd_product
       * of_nat (s_quantity
           (projr (fst (generate_sales ex_monday 1 [ex_odd_product] [ex_customer] ex_rng_plain)) ! 0))) 2
     = 12 / 100 \<and>
   s_subtotal (projr (fst (generate_sales ex_monday 1 [ex_odd_product] [ex_customer] ex_rng_plain)) ! 0)
     = py_round (p_price ex_odd_product * 1) 2"
  by code_simp

subsection \<open>Referential integrity\<close>

lemma robust_make_sale_fields:
  assumes "robust_make_sale ps d g = (Inr s, g')"
  shows "rs_product_id s \<in> rp_product_id ` set ps \<and> 1 \<le> rs_customer_id s \<and> rs_customer_id s \<le> 1000"
proof -
  from assms obtain p g1 where p: "df_sample1 ps g = (Inr p, g1)"
    by (auto simp: robust_make_sale_def split: prod.splits sum.splits)
  then have mem: "p \<in> set ps"
    by (auto simp: df_sample1_def split: prod.splits sum.splits dest: np_randint_nth)
  from assms p obtain q g2 where q: "np_randint 1 4 g1 = (Inr q, g2)"
    by (auto simp: robust_make_sale_def split: prod.splits sum.splits)
  from assms p q obtain c g3 where c: "np_randint 1 1001 g2 = (Inr c, g3)"
    by (auto simp: robust_make_sale_def Let_def split: prod.splits sum.splits)
  have "rs_product_id s = rp_product_id p \<and> rs_customer_id s = nat c"
    using assms unfolding robust_make_sale_def p q c Let_def sum.case prod.case
    by (auto split: prod.splits)
  with mem np_randint_range [OF c] show ?thesis by auto
qed

lemma robust_sales_loop_fields:
  "robust_sales_loop ps d n sales g = (Inr sales', g') \<Longrightarrow>
   \<forall>s \<in> set sales. rs_product_id s \<in> rp_product_id ` set ps \<and>
                    1 \<le> rs_customer_id s \<and> rs_customer_id s \<le> 1000 \<Longrightarrow>
   \<forall>s \<in> set sales'. rs_product_id s \<in> rp_product_id ` set ps \<and>
                     1 \<le> rs_customer_id s \<and> rs_customer_id s \<le> 1000"
proof (induction n arbitrary: sales g)
  case 0
  then show ?case by simp
next
  case (Suc n)
  from Suc.prems(1) obtain s g1 where
    ms: "robust_make_sale ps d g = (Inr s, g1)" and
    rest: "robust_sales_loop ps d n (sales @ [s]) g1 = (Inr sales', g')"
    by (auto split: prod.splits sum.splits)
  show ?case
    by (rule Suc.IH [OF rest]) (use Suc.prems(2) robust_make_sale_fields [OF ms] in auto)
qed

lemma robust_days_loop_fields:
  "robust_days_loop ps start days sales g = (Inr sales', g') \<Longrightarrow>
   \<forall>s \<in> set sales. rs_product_id s \<in> rp_product_id ` set ps \<and>
                    1 \<le> rs_customer_id s \<and> rs_customer_id s \<le> 1000 \<Longrightarrow>
   \<forall>s \<in> set sales'. rs_product_id s \<in> rp_product_id ` set ps \<and>
                     1 \<le> rs_customer_id s \<and> rs_customer_id s \<le> 1000"
proof (induction days arbitrary: sales g)
  case Nil
  then show ?case by simp
next
  case (Cons day days)
  from Cons.prems(1) obtain n g1 sales1 g2 where
    day: "robust_sales_loop ps (add_days start (int day)) n sales g1 = (Inr sales1, g2)" and
    rest: "robust_days_loop ps start days sales1 g2 = (Inr sales', g')"
    by (auto simp: Let_def split: prod.splits sum.splits)
  show ?case
    by (rule Cons.IH [OF rest]) (rule robust_sales_loop_fields [OF day Cons.prems(2)])
qed

text \<open>
  C4, as the code has it. In a table returned by
  \<^verbatim>\<open>EcommerceDataGenerator.generate_sales\<close> every \<open>product_id\<close> and every
  \<open>customer_id\<close> is the id of a row of the catalogue it was given. In a table returned by
  \<^verbatim>\<open>RobustDataGenerator.generate_sales\<close> every \<open>product_id\<close> is the id of a row of
  the product catalogue, and every \<open>customer_id\<close> is a number from 1 to 1000.
\<close>

theorem referential_integrity:
  "(generate_sales now k products_df customers_df g = (Inr sales, g') \<longrightarrow>
      (\<forall>s \<in> set sales. s_product_id s \<in> p_product_id ` set products_df \<and>
                       s_customer_id s \<in> c_customer_id ` set customers_df)) \<and>
   (robust_generate_sales now2 robust_df k2 h = (Inr robust_sales, h') \<longrightarrow>
      (\<forall>s \<in> set robust_sales. rs_product_id s \<in> rp_product_id ` set robust_df \<and>
                              1 \<le> rs_customer_id s \<and> rs_customer_id s \<le> 1000))"
proof (intro conjI impI ballI)
  fix s
  assume run: "generate_sales now k products_df customers_df g = (Inr sales, g')"
    and s: "s \<in> set sales"
  from generate_sales_made [OF run] s obtain d0 sid0 g0 g1 where
    "make_sale products_df customers_df d0 sid0 g0 = (Inr s, g1)" by blast
  from make_sale_fields [OF this]
  show "s_product_id s \<in> p_product_id ` set products_df"
    and "s_customer_id s \<in> c_customer_id ` set customers_df"
    by auto
next
  fix s
  assume run: "robust_generate_sales now2 robust_df k2 h = (Inr robust_sales, h')"
    and s: "s \<in> set robust_sales"
  from run have "robust_days_loop robust_df (add_days now2 (- int k2)) [0..<k2] [] h
                   = (Inr robust_sales, h')"
    by (simp add: robust_generate_sales_def Let_def)
  from robust_days_loop_fields [OF this] s
  show "rs_product_id s \<in> rp_product_id ` set robust_df"
    and "1 \<le> rs_customer_id s" and "rs_customer_id s \<le> 1000"
    by auto
qed

lemma ex_robust_run:
  "\<exists>sales g'. robust_generate_sales ex_now [ex_robust_product] 1 ex_rng_robust = (Inr sales, g') \<and>
              length sales = 1"
proof -
  let ?run = "robust_generate_sales ex_now [ex_robust_product] 1 ex_rng_robust"
  have ok: "\<not> isl (fst ?run)" by code_simp
  have len: "length (projr (fst ?run)) = 1" by code_simp
  obtain r g' where run: "?run = (r, g')" by (cases ?run)
  with ok obtain sales where r: "r = Inr sales" by (cases r) auto
  with run len show ?thesis by auto
qed

theorem referential_integrity_witness:
  "\<exists>sales g' robust_sales g''.
     generate_sales ex_now 1 [ex_product] [ex_customer] ex_rng = (Inr sales, g') \<and>
     length sales = 2 \<and>
     s_product_id (sales ! 0) = p_product_id ex_product \<and>
     s_customer_id (sales ! 0) = c_customer_id ex_customer \<and>
     robust_generate_sales ex_now [ex_robust_product] 1 ex_rng_robust = (Inr robust_sales, g'') \<and>
     length robust_sales = 1 \<and>
     rs_product_id (robust_sales ! 0) = rp_product_id ex_robust_product \<and>
     1 \<le> rs_customer_id (robust_sales ! 0) \<and> rs_customer_id (robust_sales ! 0) \<le> 1000"
proof -
  from ex_run obtain sales g' where
    run: "generate_sales ex_now 1 [ex_product] [ex_customer] ex_rng = (Inr sales, g')" and
    len: "length sales = 2"
    by blast
  from ex_robust_run obtain rsales g'' where
    rrun: "robust_generate_sales ex_now [ex_robust_product] 1 ex_rng_robust = (Inr rsales, g'')" and
    rlen: "length rsales = 1"
    by blast
  note ri = referential_integrity [where now = ex_now and k = 1 and products_df = "[ex_product]"
      and customers_df = "[ex_customer]" and g = ex_rng and sales = sales and g' = g'
      and ?now2.0 = ex_now and ?k2.0 = 1 and robust_df = "[ex_robust_product]"
      and h = ex_rng_robust and robust_sales = rsales and h' = g'']
  have "sales ! 0 \<in> set sales" "rsales ! 0 \<in> set rsales"
    using len rlen by simp_all
  with ri run rrun have
    "s_product_id (sales ! 0) = p_product_id ex_product"
    "s_customer_id (sales ! 0) = c_customer_id ex_customer"
    "rs_product_id (rsales ! 0) = rp_product_id ex_robust_product"
    "1 \<le> rs_customer_id (rsales ! 0)" "rs_customer_id (rsales ! 0) \<le> 1000"
    by auto
  with run len rrun rlen show ?thesis by blast
qed

text \<open>
  C4 as stated fails for \<^verbatim>\<open>RobustDataGenerator\<close>: its sales carry a
  \<open>customer_id\<close> although the generator builds no customer table.
\<close>

theorem robust_customer_id_counterexample:
  "rs_customer_id (rt_sales (projr (fst (robust_generate_all ex_now ex_rng_all))) ! 0) = 1000 \<and>
   rs_customer_id (rt_sales (projr (fst (robust_generate_all ex_now ex_rng_all))) ! 0)
     \<notin> c_customer_id ` set (robust_customers (projr (fst (robust_generate_all ex_now ex_rng_all))))"
  by (simp add: robust_customers_def) code_simp


subsection \<open>Daily number of sales\<close>

lemma weekday_range: "0 \<le> weekday d \<and> weekday d \<le> 6"
  by (simp add: weekday_def)

lemma seasonal_factor_eq:
  "seasonal_factor d = weekend_day_factor (weekday (dt_day d)) * month_factor (month_of (dt_day d))"
proof -
  have "(4 \<le> weekday (dt_day d)) =
        (weekday (dt_day d) = 4 \<or> weekday (dt_day d) = 5 \<or> weekday (dt_day d) = 6)"
    using weekday_range [of "dt_day d"] by auto
  then show ?thesis
    by (simp add: seasonal_factor_def weekend_day_factor_def month_factor_def Let_def)
qed

lemma add_days_add: "add_days (add_days d a) b = add_days d (a + b)"
  by (simp add: add_days_def)

lemma days_loop_counts:
  "days_loop ps cs k d sales sid g = (Inr (sales', sid'), g') \<Longrightarrow>
   \<exists>new. sales' = sales @ new \<and>
     length (day_starts ps cs k d sales sid g) = k \<and>
     (\<forall>i<k. length (filter (\<lambda>s. s_date s = dt_day d + 1 + int i) new)
             = daily_count (add_days d (1 + int i))
                 (fst (np_poisson 50 (day_starts ps cs k d sales sid g ! i))))"
proof (induction k arbitrary: d sales sid g)
  case 0
  then show ?case by simp
next
  case (Suc k)
  let ?d = "add_days d 1"
  have dd: "dt_day ?d = dt_day d + 1" by (simp add: add_days_def)
  from Suc.prems(1) obtain sales1 sid1 g2 where
    day: "day_body ps cs ?d sales sid g = (Inr (sales1, sid1), g2)" and
    rest: "days_loop ps cs k ?d sales1 sid1 g2 = (Inr (sales', sid'), g')"
    by (auto simp: Let_def split: prod.splits sum.splits)
  have starts: "day_starts ps cs (Suc k) d sales sid g = g # day_starts ps cs k ?d sales1 sid1 g2"
    using day by (simp add: Let_def)
  from day_body_block [OF day] obtain blk where
    blk: "sales1 = sales @ blk" "length blk = daily_count ?d (fst (np_poisson 50 g))"
      "\<forall>s \<in> set blk. \<exists>sid0 g0 g1. make_sale ps cs ?d sid0 g0 = (Inr s, g1)"
    by blast
  have blk_date: "\<forall>s \<in> set blk. s_date s = dt_day d + 1"
    using blk(3) dd by (metis make_sale_date)
  from Suc.IH [OF rest] obtain new where
    new: "sales' = sales1 @ new" "length (day_starts ps cs k ?d sales1 sid1 g2) = k"
      "\<forall>i<k. length (filter (\<lambda>s. s_date s = dt_day ?d + 1 + int i) new)
              = daily_count (add_days ?d (1 + int i))
                  (fst (np_poisson 50 (day_starts ps cs k ?d sales1 sid1 g2 ! i)))"
    by blast
  from days_loop_dates [OF rest] new(1) have
    new_date: "\<forall>s \<in> set new. dt_day ?d < s_date s"
    by auto
  have "length (filter (\<lambda>s. s_date s = dt_day d + 1 + int i) (blk @ new))
          = daily_count (add_days d (1 + int i))
              (fst (np_poisson 50 (day_starts ps cs (Suc k) d sales sid g ! i)))"
    if i: "i < Suc k" for i
  proof (cases i)
    case 0
    have "filter (\<lambda>s. s_date s = dt_day d + 1) blk = blk"
      using blk_date by (simp add: filter_id_conv)
    moreover have "filter (\<lambda>s. s_date s = dt_day d + 1) new = []"
      using new_date dd by (auto simp: filter_empty_conv)
    ultimately show ?thesis
      using 0 blk(2) starts by simp
  next
    case (Suc j)
    have "filter (\<lambda>s. s_date s = dt_day d + 1 + int i) blk = []"
      using blk_date Suc by (auto simp: filter_empty_conv)
    moreover have "length (filter (\<lambda>s. s_date s = dt_day ?d + 1 + int j) new)
              = daily_count (add_days ?d (1 + int j))
                  (fst (np_poisson 50 (day_starts ps cs k ?d sales1 sid1 g2 ! j)))"
      using new(3) i Suc by simp
    moreover have "dt_day ?d + 1 + int j = dt_day d + 1 + int i"
      using dd Suc by simp
    moreover have "add_days ?d (1 + int j) = add_days d (1 + int i)"
      using Suc by (simp add: add_days_add)
    ultimately show ?thesis
      using Suc starts by simp
  qed
  moreover have "sales' = sales @ (blk @ new)"
    using blk(1) new(1) by simp
  moreover have "length (day_starts ps cs (Suc k) d sales sid g) = Suc k"
    using starts new(2) by simp
  ultimately show ?case by blast
qed

text \<open>
  C6, as the code has it. In a table returned by
  \<^verbatim>\<open>EcommerceDataGenerator.generate_sales\<close> the number of sales dated on the
  \<open>i\<close>-th day of the window is \<open>floor(base * day_factor * month_factor)\<close>, where
  \<open>base\<close> is that day's Poisson draw, \<open>day_factor\<close> is 1.5 exactly on Fridays,
  Saturdays and Sundays (\<^verbatim>\<open>weekday() >= 4\<close>) and 1.0 otherwise, and
  \<open>month_factor\<close> is 2.5 in December, 2.0 in November, 1.3 in June and July and 1.0
  otherwise.
\<close>

theorem daily_sales_count:
  "generate_sales now k products_df customers_df g = (Inr sales, g') \<Longrightarrow>
   length (base_draws now k products_df customers_df g) = k \<and>
   (\<forall>i<k. length (filter (\<lambda>s. s_date s = date_of now - int k + 1 + int i) sales)
           = nat \<lfloor>of_nat (base_draws now k products_df customers_df g ! i)
                  * weekend_day_factor (weekday (date_of now - int k + 1 + int i))
                  * month_factor (month_of (date_of now - int k + 1 + int i))\<rfloor>)"
proof -
  assume run: "generate_sales now k products_df customers_df g = (Inr sales, g')"
  let ?d = "add_days now (- int k)"
  let ?starts = "day_starts products_df customers_df k ?d [] 1 g"
  from generate_sales_loop [OF run] obtain sid where
    loop: "days_loop products_df customers_df k ?d [] 1 g = (Inr (sales, sid), g')" ..
  from days_loop_counts [OF loop] have
    len: "length ?starts = k" and
    cnt: "\<forall>i<k. length (filter (\<lambda>s. s_date s = dt_day ?d + 1 + int i) sales)
             = daily_count (add_days ?d (1 + int i)) (fst (np_poisson 50 (?starts ! i)))"
    by auto
  have day: "dt_day (add_days ?d (1 + int i)) = date_of now - int k + 1 + int i" for i
    by (simp add: add_days_def date_of_def)
  have d0: "dt_day ?d = date_of now - int k"
    by (simp add: add_days_def date_of_def)
  have "length (filter (\<lambda>s. s_date s = date_of now - int k + 1 + int i) sales)
           = nat \<lfloor>of_nat (base_draws now k products_df customers_df g ! i)
                  * weekend_day_factor (weekday (date_of now - int k + 1 + int i))
                  * month_factor (month_of (date_of now - int k + 1 + int i))\<rfloor>"
    if i: "i < k" for i
  proof -
    have "base_draws now k products_df customers_df g ! i = fst (np_poisson 50 (?starts ! i))"
      using i len by (simp add: base_draws_def)
    then show ?thesis
      using cnt i d0 day [of i]
      by (simp add: daily_count_def seasonal_factor_eq mult.assoc)
  qed
  then show ?thesis
    using len by (simp add: base_draws_def)
qed

theorem daily_sales_count_witness:
  "\<exists>sales g'.
     generate_sales ex_sunday 1 [ex_product] [ex_customer] ex_rng_sunday = (Inr sales, g') \<and>
     length (base_draws ex_sunday 1 [ex_product] [ex_customer] ex_rng_sunday) = 1 \<and>
     length (filter (\<lambda>s. s_date s = 739676) sales) = 3"
proof -
  let ?run = "generate_sales ex_sunday 1 [ex_product] [ex_customer] ex_rng_sunday"
  have "\<not> isl (fst ?run)" by code_simp
  then have run: "?run = (Inr (projr (fst ?run)), snd ?run)"
    by (rule result_Inr)
  note t = daily_sales_count [OF run]
  have day: "date_of ex_sunday - int 1 + 1 + int 0 = 739676"
    by (simp add: date_of_def ex_sunday_def)
  have "nat \<lfloor>of_nat (base_draws ex_sunday 1 [ex_product] [ex_customer] ex_rng_sunday ! 0)
             * weekend_day_factor (weekday 739676) * month_factor (month_of 739676)\<rfloor> = 3"
    by code_simp
  moreover from t have
    "length (filter (\<lambda>s. s_date s = date_of ex_sunday - int 1 + 1 + int 0) (projr (fst ?run)))
       = nat \<lfloor>of_nat (base_draws ex_sunday 1 [ex_product] [ex_customer] ex_rng_sunday ! 0)
             * weekend_day_factor (weekday (date_of ex_sunday - int 1 + 1 + int 0))
             * month_factor (month_of (date_of ex_sunday - int 1 + 1 + int 0))\<rfloor>"
    by blast
  ultimately have "length (filter (\<lambda>s. s_date s = 739676) (projr (fst ?run))) = 3"
    unfolding day by simp
  with t run show ?thesis by blast
qed

text \<open>
  C6 as stated fails on a Sunday: on Sunday 2026-03-01 a Poisson draw of 2 yields 3 sales,
  where a day factor of 1.0 would yield 2.
\<close>

theorem sunday_count_counterexample:
  "length (filter (\<lambda>s. s_date s = 739676)
             (projr (fst (generate_sales ex_sunday 1 [ex_product] [ex_customer] ex_rng_sunday)))) = 3 \<and>
   base_draws ex_sunday 1 [ex_product] [ex_customer] ex_rng_sunday = [2] \<and>
   weekday 739676 = 6 \<and> month_of 739676 = 3 \<and>
   nat \<lfloor>of_nat (base_draws ex_sunday 1 [ex_product] [ex_customer] ex_rng_sunday ! 0)
          * claimed_day_factor (weekday 739676) * month_factor (month_of 739676)\<rfloor> = 2"
  by code_simp


subsection \<open>Restocking\<close>

text \<open>
  C9, as the code has it. On a day on which the restock test of
  \<^verbatim>\<open>generate_inventory\<close> succeeds, the stock recorded for that day is the stock left
  after the day's sales (which is at most \<open>reorder_point\<close>) plus an amount drawn from
  \<open>reorder_point\<close> (included) to \<open>ideal_stock\<close> (excluded): the stock is raised by
  such an amount, so the recorded stock is at least \<open>reorder_point\<close> and below
  \<open>reorder_point + ideal_stock\<close>.
\<close>

theorem restock_level:
  assumes day: "inventory_day now product day current_stock reorder_point ideal_stock g
                  = (Inr (record, stock'), g')"
    and due: "fst (restock_due (max 0 (current_stock - int (fst (np_poisson 2 g)))) reorder_point
                     (snd (np_poisson 2 g)))"
  shows "(\<exists>restock. reorder_point \<le> restock \<and> restock < ideal_stock \<and>
            i_current_stock record
              = max 0 (current_stock - int (fst (np_poisson 2 g))) + restock) \<and>
         stock' = i_current_stock record \<and>
         reorder_point \<le> i_current_stock record \<and>
         i_current_stock record < reorder_point + ideal_stock"
proof -
  obtain ds g1 where po: "np_poisson 2 g = (ds, g1)"
    by (cases "np_poisson 2 g")
  let ?s1 = "max 0 (current_stock - int ds)"
  obtain b g2 where rd: "restock_due ?s1 reorder_point g1 = (b, g2)"
    by (cases "restock_due ?s1 reorder_point g1")
  from due po rd have b: "b" by simp
  from rd b have le: "?s1 \<le> reorder_point"
    by (auto simp: restock_due_def split: if_splits)
  from day obtain restock g3 where
    ri: "np_randint reorder_point ideal_stock g2 = (Inr restock, g3)"
    unfolding inventory_day_def Let_def po rd prod.case using b
    by (auto split: prod.splits sum.splits)
  have rec: "i_current_stock record = ?s1 + restock \<and> stock' = ?s1 + restock"
    using day b unfolding inventory_day_def Let_def po rd ri prod.case sum.case
    by auto
  from np_randint_range [OF ri] have rr: "reorder_point \<le> restock" "restock < ideal_stock"
    by simp_all
  have "0 \<le> ?s1" by simp
  with rec rr le po show ?thesis
    by auto
qed

theorem restock_level_witness:
  "\<exists>record stock' g'.
     inventory_day ex_now ex_product 1 5 3 15 ex_rng_day = (Inr (record, stock'), g') \<and>
     fst (restock_due (max 0 (5 - int (fst (np_poisson 2 ex_rng_day)))) 3 (snd (np_poisson 2 ex_rng_day))) \<and>
     i_current_stock record = 17 \<and> stock' = 17 \<and>
     3 \<le> i_current_stock record \<and> i_current_stock record < 3 + 15"
proof -
  let ?run = "inventory_day ex_now ex_product 1 5 3 15 ex_rng_day"
  have "\<not> isl (fst ?run)" by code_simp
  then have "?run = (Inr (projr (fst ?run)), snd ?run)"
    by (rule result_Inr)
  then have run: "?run = (Inr (fst (projr (fst ?run)), snd (projr (fst ?run))), snd ?run)"
    by simp
  have due: "fst (restock_due (max 0 (5 - int (fst (np_poisson 2 ex_rng_day)))) 3
                (snd (np_poisson 2 ex_rng_day)))"
    by code_simp
  have v: "i_current_stock (fst (projr (fst ?run))) = 17"
    by code_simp
  from restock_level [OF run due] v due run show ?thesis
    by (metis (no_types, lifting))
qed

text \<open>
  C9 as stated fails: with an initial stock of 10 (reorder point 3, ideal stock 15), sales
  of 5 and then 2 leave a stock of 3; the restock of 14 on that day records a stock of 17,
  above the ideal stock.
\<close>

theorem restock_exceeds_ideal_counterexample:
  "i_current_stock (projr (fst (generate_inventory ex_now [ex_product] ex_rng_restock)) ! 0) = 5 \<and>
   i_daily_sales (projr (fst (generate_inventory ex_now [ex_product] ex_rng_restock)) ! 1) = 2 \<and>
   i_reorder_point (projr (fst (generate_inventory ex_now [ex_product] ex_rng_restock)) ! 1) = 3 \<and>
   i_ideal_stock (projr (fst (generate_inventory ex_now [ex_product] ex_rng_restock)) ! 1) = 15 \<and>
   fst (restock_due (max 0 (5 - 2)) 3 \<lparr> np_raw = [1 / 10, 11], py_raw = [], drawn = 3 \<rparr>) \<and>
   i_current_stock (projr (fst (generate_inventory ex_now [ex_product] ex_rng_restock)) ! 1) = 17 \<and>
   \<not> i_current_stock (projr (fst (generate_inventory ex_now [ex_product] ex_rng_restock)) ! 1)
       \<le> i_ideal_stock (projr (fst (generate_inventory ex_now [ex_product] ex_rng_restock)) ! 1)"
  by code_simp


subsection \<open>Empty catalogues\<close>











subsection \<open>Customer aggregates\<close>

lemma map_of_customer_stats:
  "map_of (customer_stats sales) cid =
     (if cid \<in> s_customer_id ` set sales
      then Some (sum_list (map s_total (sales_of cid sales)), length (sales_of cid sales),
                 Max (set (map s_date (sales_of cid sales))))
      else None)"
proof -
  have "customer_stats sales =
          map (\<lambda>k. (k, sum_list (map s_total (sales_of k sales)), length (sales_of k sales),
                      Max (set (map s_date (sales_of k sales)))))
              (sort (remdups (map s_customer_id sales)))"
    by (simp add: customer_stats_def sales_of_def Let_def)
  then show ?thesis
    by (simp add: map_of_map_restrict restrict_map_def)
qed

lemma sales_of_empty: "(sales_of cid sales = []) = (cid \<notin> s_customer_id ` set sales)"
  by (auto simp: sales_of_def filter_empty_conv)

lemma update_customer_stats_row:
  assumes "c' \<in> set (update_customer_stats customers sales)"
  shows "\<exists>c \<in> set customers.
           c_customer_id c' = c_customer_id c \<and>
           (if sales_of (c_customer_id c) sales = [] then c' = c
            else c_total_spent c' = sum_list (map s_total (sales_of (c_customer_id c) sales)) \<and>
                 c_total_orders c' = length (sales_of (c_customer_id c) sales) \<and>
                 c_last_purchase_date c' =
                   Some (Max (set (map s_date (sales_of (c_customer_id c) sales)))))"
proof (cases "sales = []")
  case True
  with assms show ?thesis
    by (auto simp: update_customer_stats_def sales_of_def)
next
  case False
  with assms obtain c where c: "c \<in> set customers" and
    c': "c' = (case map_of (customer_stats sales) (c_customer_id c) of
                 None \<Rightarrow> c
               | Some (spent, orders, latest) \<Rightarrow>
                   c\<lparr> c_total_spent := spent, c_total_orders := orders,
                      c_last_purchase_date := Some latest \<rparr>)"
    by (auto simp: update_customer_stats_def)
  show ?thesis
  proof (cases "c_customer_id c \<in> s_customer_id ` set sales")
    case True
    then have "sales_of (c_customer_id c) sales \<noteq> []"
      by (simp add: sales_of_empty)
    with c c' True show ?thesis
      by (intro bexI [of _ c]) (simp_all add: map_of_customer_stats)
  next
    case False
    then have "sales_of (c_customer_id c) sales = []"
      by (simp add: sales_of_empty)
    with c c' False show ?thesis
      by (intro bexI [of _ c]) (simp_all add: map_of_customer_stats)
  qed
qed

lemma customers_loop_defaults:
  "customers_loop is customers g = (customers', g') \<Longrightarrow>
   \<forall>c \<in> set customers. c_last_purchase_date c = None \<and> c_total_spent c = 0 \<and> c_total_orders c = 0 \<Longrightarrow>
   \<forall>c \<in> set customers'. c_last_purchase_date c = None \<and> c_total_spent c = 0 \<and> c_total_orders c = 0"
proof (induction "is" arbitrary: customers g)
  case Nil
  then show ?case by simp
next
  case (Cons i "is")
  obtain c g1 where mc: "make_customer i g = (c, g1)" by (cases "make_customer i g")
  then have d: "c_last_purchase_date c = None \<and> c_total_spent c = 0 \<and> c_total_orders c = 0"
    by (auto simp: make_customer_def Let_def split: prod.splits)
  from Cons.prems(1) mc have rest: "customers_loop is (customers @ [c]) g1 = (customers', g')"
    by simp
  show ?case
    by (rule Cons.IH [OF rest]) (use Cons.prems(2) d in auto)
qed

lemma generate_customers_defaults:
  "generate_customers cfg g = (customers, g') \<Longrightarrow>
   \<forall>c \<in> set customers. c_last_purchase_date c = None \<and> c_total_spent c = 0 \<and> c_total_orders c = 0"
  unfolding generate_customers_def
  by (drule customers_loop_defaults) simp_all

text \<open>
  C3. In the tables returned by \<^verbatim>\<open>generate_all_data\<close>, every customer has
  \<open>total_orders\<close> equal to the number of sales with its id, \<open>total_spent\<close> equal to
  the sum of their totals and \<open>last_purchase_date\<close> equal to their latest date; a
  customer without sales has 0, 0 and no date, the values set by
  \<^verbatim>\<open>generate_customers\<close>.
\<close>

theorem customer_aggregates:
  "generate_all_data cfg now g = (Inr t, g') \<Longrightarrow>
   \<forall>c \<in> set (t_customers t).
     c_total_orders c = length (sales_of (c_customer_id c) (t_sales t)) \<and>
     c_total_spent c = sum_list (map s_total (sales_of (c_customer_id c) (t_sales t))) \<and>
     c_last_purchase_date c =
       (if sales_of (c_customer_id c) (t_sales t) = [] then None
        else Some (Max (set (map s_date (sales_of (c_customer_id c) (t_sales t))))))"
proof
  fix c'
  assume run: "generate_all_data cfg now g = (Inr t, g')" and mem: "c' \<in> set (t_customers t)"
  from run obtain customers g1 g2 sales where
    gc: "generate_customers cfg g1 = (customers, g2)" and
    tc: "t_customers t = update_customer_stats customers sales" and
    ts: "t_sales t = sales"
    by (auto simp: generate_all_data_def Let_def split: prod.splits sum.splits)
  from update_customer_stats_row [of c' customers sales] mem tc obtain c where
    c: "c \<in> set customers" "c_customer_id c' = c_customer_id c" and
    row: "if sales_of (c_customer_id c) sales = [] then c' = c
          else c_total_spent c' = sum_list (map s_total (sales_of (c_customer_id c) sales)) \<and>
               c_total_orders c' = length (sales_of (c_customer_id c) sales) \<and>
               c_last_purchase_date c' =
                 Some (Max (set (map s_date (sales_of (c_customer_id c) sales))))"
    by auto
  from generate_customers_defaults [OF gc] c(1) have
    d: "c_last_purchase_date c = None" "c_total_spent c = 0" "c_total_orders c = 0"
    by auto
  show "c_total_orders c' = length (sales_of (c_customer_id c') (t_sales t)) \<and>
     c_total_spent c' = sum_list (map s_total (sales_of (c_customer_id c') (t_sales t))) \<and>
     c_last_purchase_date c' =
       (if sales_of (c_customer_id c') (t_sales t) = [] then None
        else Some (Max (set (map s_date (sales_of (c_customer_id c') (t_sales t))))))"
  proof (cases "sales_of (c_customer_id c) sales = []")
    case True
    with row have "c' = c" by simp
    with True d ts show ?thesis by simp
  next
    case False
    with row c(2) ts show ?thesis by simp
  qed
qed

theorem customer_aggregates_witness:
  "\<exists>t g'. generate_all_data ex_config_small ex_now ex_rng_pipeline = (Inr t, g') \<and>
     length (t_customers t) = 2 \<and> length (t_sales t) = 2 \<and>
     c_total_orders (t_customers t ! 0) = 2 \<and>
     c_total_spent (t_customers t ! 0) = 150 \<and>
     c_last_purchase_date (t_customers t ! 0) = Some 739924 \<and>
     c_total_orders (t_customers t ! 1) = 0 \<and>
     c_total_spent (t_customers t ! 1) = 0 \<and>
     c_last_purchase_date (t_customers t ! 1) = None"
proof -
  let ?run = "generate_all_data ex_config_small ex_now ex_rng_pipeline"
  let ?t = "projr (fst ?run)"
  have "\<not> isl (fst ?run)" by code_simp
  then have run: "?run = (Inr ?t, snd ?run)" by (rule result_Inr)
  have len: "length (t_customers ?t) = 2" "length (t_sales ?t) = 2" by code_simp+
  then have mem: "t_customers ?t ! 0 \<in> set (t_customers ?t)" "t_customers ?t ! 1 \<in> set (t_customers ?t)"
    by simp_all
  have v0: "length (sales_of (c_customer_id (t_customers ?t ! 0)) (t_sales ?t)) = 2"
    "sum_list (map s_total (sales_of (c_customer_id (t_customers ?t ! 0)) (t_sales ?t))) = 150"
    "sales_of (c_customer_id (t_customers ?t ! 0)) (t_sales ?t) \<noteq> []"
    "Max (set (map s_date (sales_of (c_customer_id (t_customers ?t ! 0)) (t_sales ?t)))) = 739924"
    by code_simp+
  have v1: "sales_of (c_customer_id (t_customers ?t ! 1)) (t_sales ?t) = []"
    by code_simp
  note a = customer_aggregates [OF run]
  let ?c0 = "t_customers ?t ! 0" and ?c1 = "t_customers ?t ! 1"
  from a mem(1) have
    "c_total_orders ?c0 = length (sales_of (c_customer_id ?c0) (t_sales ?t)) \<and>
     c_total_spent ?c0 = sum_list (map s_total (sales_of (c_customer_id ?c0) (t_sales ?t))) \<and>
     c_last_purchase_date ?c0 =
       (if sales_of (c_customer_id ?c0) (t_sales ?t) = [] then None
        else Some (Max (set (map s_date (sales_of (c_customer_id ?c0) (t_sales ?t))))))"
    by blast
  with v0 have r0:
    "c_total_orders ?c0 = 2 \<and> c_total_spent ?c0 = 150 \<and> c_last_purchase_date ?c0 = Some 739924"
    by simp
  from a mem(2) have
    "c_total_orders ?c1 = length (sales_of (c_customer_id ?c1) (t_sales ?t)) \<and>
     c_total_spent ?c1 = sum_list (map s_total (sales_of (c_customer_id ?c1) (t_sales ?t))) \<and>
     c_last_purchase_date ?c1 =
       (if sales_of (c_customer_id ?c1) (t_sales ?t) = [] then None
        else Some (Max (set (map s_date (sales_of (c_customer_id ?c1) (t_sales ?t))))))"
    by blast
  with v1 have r1:
    "c_total_orders ?c1 = 0 \<and> c_total_spent ?c1 = 0 \<and> c_last_purchase_date ?c1 = None"
    by simp
  from r0 r1 run len show ?thesis by blast
qed

subsection \<open>Dependence on the clock\<close>

text \<open>
  C1. With the same random draws and the same configuration, a run one microsecond later
  returns another Sale table (the column \<^verbatim>\<open>datetime\<close> holds the clock reading), and a
  run one day later returns other dates in the Sale and Inventory tables; the Sale table
  of \<^verbatim>\<open>RobustDataGenerator\<close> changes with the day as well. The output is a function
  of the seed, the configuration and \<^verbatim>\<open>datetime.now()\<close>.
\<close>

theorem clock_dependence:
  "t_sales (projr (fst (generate_all_data ex_config_small ex_now ex_rng_pipeline)))
     \<noteq> t_sales (projr (fst (generate_all_data ex_config_small ex_later ex_rng_pipeline))) \<and>
   map s_date (t_sales (projr (fst (generate_all_data ex_config_small ex_now ex_rng_pipeline))))
     \<noteq> map s_date (t_sales (projr (fst (generate_all_data ex_config_small ex_tomorrow ex_rng_pipeline)))) \<and>
   map i_date (t_inventory (projr (fst (generate_all_data ex_config_small ex_now ex_rng_pipeline))))
     \<noteq> map i_date (t_inventory (projr (fst (generate_all_data ex_config_small ex_tomorrow ex_rng_pipeline)))) \<and>
   map rs_date (projr (fst (robust_generate_sales ex_now [ex_robust_product] 1 ex_rng_robust)))
     \<noteq> map rs_date (projr (fst (robust_generate_sales ex_tomorrow [ex_robust_product] 1 ex_rng_robust)))"
  by code_simp


end
